theory Spec2Isabelle
  imports Main "HOL-Library.Word" "HOL-Library.Monad_Syntax" "HOL-Library.AList" "HOL-Library.Stream"
begin

section \<open>The Raft core of dragonboat: \<^verbatim>\<open>internal/raft/raft.go\<close>\<close>

text \<open>
  A shallow embedding of \<^verbatim>\<open>internal/raft/raft.go\<close>: construction, \<^verbatim>\<open>tick\<close>, \<^verbatim>\<open>Handle\<close> and
  everything they call. The host-facing membership calls (\<^verbatim>\<open>addNode\<close>, \<^verbatim>\<open>addObserver\<close>,
  \<^verbatim>\<open>removeNode\<close>, \<^verbatim>\<open>restoreRemotes\<close>) and the status and debugging functions are not part of
  a step and are left out.

  Every \<^verbatim>\<open>uint64\<close> of the source is a 64-bit word, so \<open>+\<close> wraps as it does in Go; lengths and
  counts (Go's \<^verbatim>\<open>int\<close>) are natural numbers. A Go panic is the value \<open>None\<close> of the option
  monad; a method that mutates the receiver returns the updated state. A Go map is an association
  list with the keys in iteration order: Go leaves that order unspecified, the model iterates in
  list order, and every theorem below holds for every list, hence for every order.

  Logging calls are left out. Go evaluates their arguments, among them \<^verbatim>\<open>r.describe()\<close>, which
  reads the term of the last log index and panics on an error other than "compacted"; the log
  view below reports no other error, so the call only reads the state.

  The log view, the peer records, the read-index queue, the wire schema and the configuration
  are declared in files of the repository other than raft.go. What raft.go needs of them is
  modelled from the spec; each such definition says so.
\<close>

type_synonym u64 = "64 word"

subsection \<open>Constants and enumerations\<close>

abbreviation NoLeader :: u64 where "NoLeader \<equiv> 0"
abbreviation NoNode :: u64 where "NoNode \<equiv> 0"

definition noLimit :: u64 where
  "noLimit = 18446744073709551615"

datatype State = follower | candidate | leader | observer

text \<open>
  The message types of \<^verbatim>\<open>raftpb\<close> that raft.go names. The source sizes its handler table
  for 25 types; \<open>OtherMessage\<close> stands for the ones raft.go never mentions (no handler, neither a
  leader message nor a request message).
\<close>

datatype MessageType =
    Election | Propose | Replicate | ReplicateResp | Heartbeat | HeartbeatResp
  | RequestVote | RequestVoteResp | InstallSnapshot | SnapshotStatus | Unreachable
  | CheckQuorum | LeaderHeartbeat | LeaderTransfer | TimeoutNow | ReadIndex | ReadIndexResp
  | NoOP | OtherMessage

datatype EntryType = ApplicationEntry | ConfigChangeEntry

datatype logError = ErrCompacted | ErrUnavailable

subsection \<open>The wire schema (\<^verbatim>\<open>raftpb\<close>), by field\<close>

record entry =
  eType :: EntryType
  eTerm :: u64
  eIndex :: u64
  eCmd :: "8 word list"

record systemCtx =
  ctxLow :: u64
  ctxHigh :: u64

text \<open>Only the keys of the two membership maps are read by raft.go.\<close>

record membership =
  mbAddresses :: "u64 list"
  mbObservers :: "u64 list"

record snapshot =
  ssIndex :: u64
  ssTerm :: u64
  ssMembership :: membership

record message =
  mType :: MessageType
  mTo :: u64
  mFrom :: u64
  mTerm :: u64
  mLogTerm :: u64
  mLogIndex :: u64
  mCommit :: u64
  mReject :: bool
  mHint :: u64
  mHintHigh :: u64
  mEntries :: "entry list"
  mSnapshot :: snapshot

record pbState =
  stTerm :: u64
  stVote :: u64
  stCommit :: u64

record readyToRead =
  rtrIndex :: u64
  rtrCtx :: systemCtx

definition zeroCtx :: systemCtx where
  "zeroCtx = \<lparr>ctxLow = 0, ctxHigh = 0\<rparr>"

definition emptyMembership :: membership where
  "emptyMembership = \<lparr>mbAddresses = [], mbObservers = []\<rparr>"

definition emptySnapshot :: snapshot where
  "emptySnapshot = \<lparr>ssIndex = 0, ssTerm = 0, ssMembership = emptyMembership\<rparr>"

definition emptyState :: pbState where
  "emptyState = \<lparr>stTerm = 0, stVote = 0, stCommit = 0\<rparr>"

text \<open>The zero value \<^verbatim>\<open>pb.Message{}\<close>; the Go zero of the type field is taken to be a type
  raft.go does not name.\<close>

definition emptyMessage :: message where
  "emptyMessage = \<lparr>mType = OtherMessage, mTo = 0, mFrom = 0, mTerm = 0, mLogTerm = 0,
     mLogIndex = 0, mCommit = 0, mReject = False, mHint = 0, mHintHigh = 0, mEntries = [],
     mSnapshot = emptySnapshot\<rparr>"

definition IsEmptyState :: "pbState \<Rightarrow> bool" where
  "IsEmptyState st = (st = emptyState)"

definition IsEmptySnapshot :: "snapshot \<Rightarrow> bool" where
  "IsEmptySnapshot ss = (ssIndex ss = 0)"

subsection \<open>Peer records (\<^verbatim>\<open>remote\<close>)\<close>

datatype remoteStateType = remoteRetry | remoteWait | remoteReplicate | remoteSnapshot | remoteProbe

record remote =
  match :: u64
  "next" :: u64
  snapshotIndex :: u64
  rstate :: remoteStateType
  active :: bool

text \<open>The Go literal \<^verbatim>\<open>&remote{next: n, match: m}\<close>: every other field has its zero value.\<close>

definition newRemote :: "u64 \<Rightarrow> u64 \<Rightarrow> remote" where
  "newRemote m n = \<lparr>match = m, next = n, snapshotIndex = 0, rstate = remoteRetry, active = False\<rparr>"

text \<open>Modelled from the spec: the methods of \<^verbatim>\<open>remote\<close> (remote.go is not part of the
  sources at hand). The spec gives the peer record as match, next, a flow state, an activity flag
  and at most one snapshot index in flight; a peer is paused while it waits or a snapshot is in
  flight.\<close>

definition isPaused :: "remote \<Rightarrow> bool" where
  "isPaused rp = (rstate rp = remoteWait \<or> rstate rp = remoteSnapshot)"

definition isActive :: "remote \<Rightarrow> bool" where
  "isActive rp = active rp"

definition setActive :: "remote \<Rightarrow> remote" where
  "setActive rp = rp\<lparr>active := True\<rparr>"

definition setNotActive :: "remote \<Rightarrow> remote" where
  "setNotActive rp = rp\<lparr>active := False\<rparr>"

text \<open>Modelled from the spec: \<^verbatim>\<open>remote.waitToRetry\<close>, "clears any retry gating".\<close>

definition waitToRetry :: "remote \<Rightarrow> remote" where
  "waitToRetry rp = (if rstate rp = remoteWait then rp\<lparr>rstate := remoteRetry\<rparr> else rp)"

definition retryToWait :: "remote \<Rightarrow> remote" where
  "retryToWait rp = (if rstate rp = remoteRetry then rp\<lparr>rstate := remoteWait\<rparr> else rp)"

text \<open>Modelled from the spec: \<^verbatim>\<open>remote.becomeRetry\<close>, \<^verbatim>\<open>becomeWait\<close>,
  \<^verbatim>\<open>becomeReplicate\<close>, \<^verbatim>\<open>becomeSnapshot\<close> and \<^verbatim>\<open>clearPendingSnapshot\<close>: leaving the
  snapshot state puts next past the snapshot that was in flight and past match.\<close>

definition becomeRetry :: "remote \<Rightarrow> remote" where
  "becomeRetry rp =
     rp\<lparr>next := (if rstate rp = remoteSnapshot then max (match rp + 1) (snapshotIndex rp + 1)
                  else match rp + 1),
        snapshotIndex := 0, rstate := remoteRetry\<rparr>"

definition becomeWait :: "remote \<Rightarrow> remote" where
  "becomeWait rp = retryToWait (becomeRetry rp)"

definition becomeReplicate :: "remote \<Rightarrow> remote" where
  "becomeReplicate rp = rp\<lparr>next := match rp + 1, snapshotIndex := 0, rstate := remoteReplicate\<rparr>"

definition becomeSnapshot :: "u64 \<Rightarrow> remote \<Rightarrow> remote" where
  "becomeSnapshot index rp = rp\<lparr>snapshotIndex := index, rstate := remoteSnapshot\<rparr>"

definition clearPendingSnapshot :: "remote \<Rightarrow> remote" where
  "clearPendingSnapshot rp = rp\<lparr>snapshotIndex := 0\<rparr>"

text \<open>Modelled from the spec: \<^verbatim>\<open>remote.tryUpdate\<close>, "advance peer's match to
  msg.logIndex, next to match+1; clear pause". The result says whether match advanced.\<close>

definition tryUpdate :: "u64 \<Rightarrow> remote \<Rightarrow> bool \<times> remote" where
  "tryUpdate index rp =
     (let rp1 = (if next rp < index + 1 then rp\<lparr>next := index + 1\<rparr> else rp)
      in if match rp1 < index then (True, (waitToRetry rp1)\<lparr>match := index\<rparr>)
         else (False, rp1))"

text \<open>Modelled from the spec: \<^verbatim>\<open>remote.progress\<close>, "after queuing, update next
  optimistically to lastIndex+1 and the peer's flow state".\<close>

definition progress :: "u64 \<Rightarrow> remote \<Rightarrow> remote" where
  "progress lastIdx rp =
     (if rstate rp = remoteReplicate then rp\<lparr>next := lastIdx + 1\<rparr> else retryToWait rp)"

text \<open>Modelled from the spec: \<^verbatim>\<open>remote.respondedTo\<close>, the flow-state change on a
  successful ReplicateResp.\<close>

definition respondedTo :: "remote \<Rightarrow> remote" where
  "respondedTo rp =
     (if rstate rp = remoteRetry then becomeReplicate rp
      else if rstate rp = remoteSnapshot \<and> snapshotIndex rp \<le> match rp then becomeRetry rp
      else rp)"

text \<open>Modelled from the spec: \<^verbatim>\<open>remote.decreaseTo\<close>, "decrease next using the peer's
  hint (min(rejectedIndex, hint+1))". The result says whether the rejection was not stale.\<close>

definition decreaseTo :: "u64 \<Rightarrow> u64 \<Rightarrow> remote \<Rightarrow> bool \<times> remote" where
  "decreaseTo rejected hint rp =
     (if rstate rp = remoteReplicate then
        (if rejected \<le> match rp then (False, rp) else (True, rp\<lparr>next := match rp + 1\<rparr>))
      else if next rp - 1 \<noteq> rejected then (False, rp)
      else (True, (waitToRetry rp)\<lparr>next := min rejected (hint + 1)\<rparr>))"

subsection \<open>The read-index queue (\<^verbatim>\<open>readIndex\<close>)\<close>

record readStatus =
  rsIndex :: u64
  rsFrom :: u64
  rsCtx :: systemCtx
  rsConfirmed :: "u64 list"

type_synonym readIndex = "readStatus list"

text \<open>Modelled from the spec: the read-index engine (readindex.go is not part of the sources at
  hand): an "ordered sequence of pending reads, each {committedIndexAtRequest, clientCtx,
  origin}", oldest first.\<close>

definition newReadIndex :: readIndex where
  "newReadIndex = []"

definition hasPendingRequest :: "readIndex \<Rightarrow> bool" where
  "hasPendingRequest q = (q \<noteq> [])"

text \<open>Modelled from the spec: \<^verbatim>\<open>readIndex.peepCtx\<close>, the context piggybacked on a
  heartbeat, taken to be that of the most recent pending read. The source calls it only after
  \<open>hasPendingRequest\<close>.\<close>

definition peepCtx :: "readIndex \<Rightarrow> systemCtx" where
  "peepCtx q = rsCtx (last q)"

definition addRequest :: "u64 \<Rightarrow> systemCtx \<Rightarrow> u64 \<Rightarrow> readIndex \<Rightarrow> readIndex" where
  "addRequest index ctx from q =
     q @ [\<lparr>rsIndex = index, rsFrom = from, rsCtx = ctx, rsConfirmed = []\<rparr>]"

fun confirmMark :: "systemCtx \<Rightarrow> u64 \<Rightarrow> readIndex \<Rightarrow> readIndex" where
  "confirmMark ctx from [] = []"
| "confirmMark ctx from (s # q) =
     (if rsCtx s = ctx then s\<lparr>rsConfirmed := List.insert from (rsConfirmed s)\<rparr> # q
      else s # confirmMark ctx from q)"

fun splitAtCtx :: "systemCtx \<Rightarrow> readIndex \<Rightarrow> readIndex \<times> readIndex" where
  "splitAtCtx ctx [] = ([], [])"
| "splitAtCtx ctx (s # q) =
     (if rsCtx s = ctx then ([s], q)
      else (let (done, rest) = splitAtCtx ctx q in (s # done, rest)))"

text \<open>Modelled from the spec: \<^verbatim>\<open>readIndex.confirm\<close>, "when Heartbeat responses carrying
  ctx arrive from a voter quorum (counting self), drain all queued reads with matching (or
  earlier) ctx". It returns the drained reads and the remaining queue.\<close>

definition confirm :: "systemCtx \<Rightarrow> u64 \<Rightarrow> nat \<Rightarrow> readIndex \<Rightarrow> readStatus list \<times> readIndex" where
  "confirm ctx from q rq =
     (case find (\<lambda>s. rsCtx s = ctx) rq of
        None \<Rightarrow> ([], rq)
      | Some s0 \<Rightarrow>
          (let rq1 = confirmMark ctx from rq;
               n = length (List.insert from (rsConfirmed s0))
           in if n + 1 < q then ([], rq1) else splitAtCtx ctx rq1))"

subsection \<open>The log view (\<^verbatim>\<open>entryLog\<close>)\<close>

text \<open>
  Modelled from the spec: the log view (logentry.go is not part of the sources at hand). The
  spec: "an ordered sequence of entries ... Indices are contiguous starting at some firstIndex
  \<ge> 1 (earlier entries may have been compacted into a snapshot)". The entries at hand are
  those after \<open>markerIndex\<close>, the last compacted index, whose term is \<open>markerTerm\<close>; the entry
  at index \<open>i\<close> is found by position.
\<close>

record entryLog =
  markerIndex :: u64
  markerTerm :: u64
  ents :: "entry list"
  committed :: u64
  logSnapshot :: snapshot

definition newEntryLog :: entryLog where
  "newEntryLog = \<lparr>markerIndex = 0, markerTerm = 0, ents = [], committed = 0,
     logSnapshot = emptySnapshot\<rparr>"

definition firstIndex :: "entryLog \<Rightarrow> u64" where
  "firstIndex l = markerIndex l + 1"

definition lastIndex :: "entryLog \<Rightarrow> u64" where
  "lastIndex l = markerIndex l + of_nat (length (ents l))"

text \<open>Modelled from the spec: \<^verbatim>\<open>entryLog.term\<close>, "Term(i) \<rightarrow> term | Compacted". An
  index past the last entry has no entry and reads as term 0.\<close>

definition term_log :: "entryLog \<Rightarrow> u64 \<Rightarrow> u64 \<times> logError option" where
  "term_log l i =
     (if i < markerIndex l then (0, Some ErrCompacted)
      else if i = markerIndex l then (markerTerm l, None)
      else if unat i - unat (markerIndex l) \<le> length (ents l)
        then (eTerm (ents l ! (unat i - unat (markerIndex l) - 1)), None)
      else (0, None))"

definition lastTerm :: "entryLog \<Rightarrow> u64" where
  "lastTerm l = fst (term_log l (lastIndex l))"

definition entrySize :: "entry \<Rightarrow> nat" where
  "entrySize e = length (eCmd e)"

fun takeWithin :: "nat \<Rightarrow> entry list \<Rightarrow> entry list" where
  "takeWithin b [] = []"
| "takeWithin b (e # es) =
     (if entrySize e \<le> b then e # takeWithin (b - entrySize e) es else [])"

fun limitSize :: "nat \<Rightarrow> entry list \<Rightarrow> entry list" where
  "limitSize b [] = []"
| "limitSize b (e # es) = e # takeWithin (b - entrySize e) es"

text \<open>Modelled from the spec: \<^verbatim>\<open>entryLog.entries\<close>, "Entries(lo, maxBytes) \<rightarrow> []Entry |
  Compacted". The spec does not say how the bytes of an entry are counted; the length of the
  payload is used, and the first available entry is returned whatever its size.\<close>

definition entries_log :: "entryLog \<Rightarrow> u64 \<Rightarrow> u64 \<Rightarrow> entry list \<times> logError option" where
  "entries_log l lo maxSize =
     (if lo \<le> markerIndex l then ([], Some ErrCompacted)
      else if length (ents l) < unat lo - unat (markerIndex l) then ([], None)
      else (limitSize (unat maxSize) (drop (unat lo - unat (markerIndex l) - 1) (ents l)), None))"

definition snapshot_log :: "entryLog \<Rightarrow> snapshot" where
  "snapshot_log l = logSnapshot l"

text \<open>Modelled from the spec: \<^verbatim>\<open>entryLog.matchTerm\<close>, "the log already matches at
  index/term".\<close>

definition matchTerm :: "entryLog \<Rightarrow> u64 \<Rightarrow> u64 \<Rightarrow> bool" where
  "matchTerm l i t = (case term_log l i of (lt, None) \<Rightarrow> lt = t | (lt, Some e) \<Rightarrow> False)"

text \<open>Modelled from the spec: "commitTo(i): raises committed to min(i, lastIndex); never
  lowers".\<close>

definition commitTo :: "entryLog \<Rightarrow> u64 \<Rightarrow> entryLog" where
  "commitTo l i = l\<lparr>committed := max (committed l) (min i (lastIndex l))\<rparr>"

text \<open>Modelled from the spec: \<^verbatim>\<open>entryLog.tryCommit\<close>, "advance committed to that index
  only if the entry at that index has term == currentTerm".\<close>

definition tryCommit_log :: "entryLog \<Rightarrow> u64 \<Rightarrow> u64 \<Rightarrow> bool \<times> entryLog" where
  "tryCommit_log l index t =
     (if committed l < index \<and> term_log l index = (t, None) then (True, commitTo l index)
      else (False, l))"

text \<open>Modelled from the spec: "upToDate(index, term): returns true iff term > log.lastTerm() or
  (term == log.lastTerm() and index \<ge> log.lastIndex())".\<close>

definition upToDate :: "entryLog \<Rightarrow> u64 \<Rightarrow> u64 \<Rightarrow> bool" where
  "upToDate l index t = (lastTerm l < t \<or> (t = lastTerm l \<and> lastIndex l \<le> index))"

text \<open>Modelled from the spec: \<^verbatim>\<open>entryLog.append\<close>, "Append(entries)".\<close>

definition append_log :: "entryLog \<Rightarrow> entry list \<Rightarrow> entryLog" where
  "append_log l es = l\<lparr>ents := ents l @ es\<rparr>"

text \<open>The number of leading entries of a Replicate message, the first of which sits at position
  \<open>pos\<close> of the entries at hand, that the log already holds with the same term.\<close>

fun agreeing :: "entry list \<Rightarrow> nat \<Rightarrow> entry list \<Rightarrow> nat" where
  "agreeing old pos [] = 0"
| "agreeing old pos (e # es) =
     (if pos < length old \<and> eTerm (old ! pos) = eTerm e then Suc (agreeing old (Suc pos) es)
      else 0)"

text \<open>Modelled from the spec: "tryAppend(prevIndex, entries): after log-matching confirmed by
  matchTerm(prevIndex, prevTerm), entries are inserted; any suffix that conflicts by term is
  truncated ... Never truncates below committed". Truncating at or below committed is a broken
  invariant, hence fatal.\<close>

definition tryAppend :: "entryLog \<Rightarrow> u64 \<Rightarrow> entry list \<Rightarrow> entryLog option" where
  "tryAppend l prevIndex es =
     (let pos = unat prevIndex - unat (markerIndex l);
          k = agreeing (ents l) pos es
      in if k = length es then Some l
         else if prevIndex + of_nat k < committed l then None
         else Some (l\<lparr>ents := take (pos + k) (ents l) @ drop k es\<rparr>))"

text \<open>Modelled from the spec: \<^verbatim>\<open>entryLog.restore\<close>, "replace log state with the
  snapshot".\<close>

definition restore_log :: "entryLog \<Rightarrow> snapshot \<Rightarrow> entryLog" where
  "restore_log l ss = \<lparr>markerIndex = ssIndex ss, markerTerm = ssTerm ss, ents = [],
     committed = ssIndex ss, logSnapshot = ss\<rparr>"

text \<open>Modelled from the spec: \<^verbatim>\<open>countConfigChange\<close>, the number of ConfigChange entries
  in a batch.\<close>

definition countConfigChange :: "entry list \<Rightarrow> nat" where
  "countConfigChange es = length (filter (\<lambda>e. eType e = ConfigChangeEntry) es)"

subsection \<open>The node (\<^verbatim>\<open>type raft struct\<close>)\<close>

text \<open>
  The fields of the Go struct, in its order. Left out: the handler table and \<^verbatim>\<open>handle\<close>
  (fixed at construction; see \<open>defaultHandle\<close>) and the callback \<^verbatim>\<open>recordLeader\<close>. The
  test-only hook \<^verbatim>\<open>hasNotAppliedConfigChange\<close> is \<open>None\<close> for nil and \<open>Some b\<close> for a
  function that answers \<open>b\<close>. Three things the Go code reads from outside the struct are carried
  along: the random source \<^verbatim>\<open>random.LockGuardedRand\<close> as the stream of the values it will
  return, and the two size limits \<^verbatim>\<open>settings.Soft.MaxEntrySize\<close> and
  \<^verbatim>\<open>maxEntriesToApplySize\<close>, whose values are not in raft.go.
\<close>

record raft =
  applied :: u64
  nodeID :: u64
  clusterID :: u64
  "term" :: u64
  vote :: u64
  log :: entryLog
  remotes :: "(u64 \<times> remote) list"
  observers :: "(u64 \<times> remote) list"
  state :: State
  votes :: "(u64 \<times> bool) list"
  msgs :: "message list"
  leaderID :: u64
  leaderTransferTarget :: u64
  isLeaderTransferTarget :: bool
  pendingConfigChange :: bool
  readIndex :: readIndex
  readyToRead :: "readyToRead list"
  checkQuorum :: bool
  tickCount :: u64
  electionTick :: u64
  heartbeatTick :: u64
  heartbeatTimeout :: u64
  electionTimeout :: u64
  randomizedElectionTimeout :: u64
  matched :: "u64 list"
  hasNotAppliedConfigChange :: "bool option"
  randSource :: "u64 stream"
  maxEntrySize :: u64
  maxEntriesToApplySize :: u64

text \<open>A loop over a slice or over the keys of a map, threading the state; a panic in the body
  ends it.\<close>

fun forEach :: "('a \<Rightarrow> 's \<Rightarrow> 's option) \<Rightarrow> 'a list \<Rightarrow> 's \<Rightarrow> 's option" where
  "forEach f [] s = Some s"
| "forEach f (x # xs) s = f x s \<bind> forEach f xs"

text \<open>A \<^verbatim>\<open>*remote\<close> obtained for a node id, looked up among the voters first and the
  observers second, as \<^verbatim>\<open>sendReplicateMessage\<close> and \<^verbatim>\<open>lw\<close> do; a write through the
  pointer is a write to the map it came from.\<close>

definition lookupRemote :: "raft \<Rightarrow> u64 \<Rightarrow> remote option" where
  "lookupRemote r to =
     (case map_of (remotes r) to of Some v \<Rightarrow> Some v | None \<Rightarrow> map_of (observers r) to)"

definition updateRemote :: "raft \<Rightarrow> u64 \<Rightarrow> (remote \<Rightarrow> remote) \<Rightarrow> raft" where
  "updateRemote r to f =
     (case map_of (remotes r) to of
        Some v \<Rightarrow> r\<lparr>remotes := AList.update to (f v) (remotes r)\<rparr>
      | None \<Rightarrow>
         (case map_of (observers r) to of
            Some v \<Rightarrow> r\<lparr>observers := AList.update to (f v) (observers r)\<rparr>
          | None \<Rightarrow> r))"

definition setApplied :: "raft \<Rightarrow> u64 \<Rightarrow> raft" where
  "setApplied r a = r\<lparr>applied := a\<rparr>"

definition getApplied :: "raft \<Rightarrow> u64" where
  "getApplied r = applied r"

definition resetMatchValueArray :: "raft \<Rightarrow> raft" where
  "resetMatchValueArray r = r\<lparr>matched := replicate (length (remotes r)) 0\<rparr>"

definition isObserver :: "raft \<Rightarrow> bool" where
  "isObserver r = (state r = observer)"

definition setLeaderID :: "raft \<Rightarrow> u64 \<Rightarrow> raft" where
  "setLeaderID r lid = r\<lparr>leaderID := lid\<rparr>"

definition leaderTransfering :: "raft \<Rightarrow> bool" where
  "leaderTransfering r = (leaderTransferTarget r \<noteq> NoNode \<and> state r = leader)"

definition abortLeaderTransfer :: "raft \<Rightarrow> raft" where
  "abortLeaderTransfer r = r\<lparr>leaderTransferTarget := NoNode\<rparr>"

definition quorum :: "raft \<Rightarrow> nat" where
  "quorum r = length (remotes r) div 2 + 1"

definition isSingleNodeQuorum :: "raft \<Rightarrow> bool" where
  "isSingleNodeQuorum r = (quorum r = 1)"

fun countActive :: "u64 \<Rightarrow> (u64 \<times> remote) list \<Rightarrow> nat \<times> (u64 \<times> remote) list" where
  "countActive self [] = (0, [])"
| "countActive self ((nid, rp) # rest) =
     (let (c, rest') = countActive self rest
      in if nid = self \<or> isActive rp then (Suc c, (nid, setNotActive rp) # rest')
         else (c, (nid, rp) # rest'))"

definition leaderHasQuorum :: "raft \<Rightarrow> bool \<times> raft" where
  "leaderHasQuorum r =
     (let (c, rs) = countActive (nodeID r) (remotes r);
          r1 = r\<lparr>remotes := rs\<rparr>
      in (quorum r1 \<le> c, r1))"

definition raftState :: "raft \<Rightarrow> pbState" where
  "raftState r = \<lparr>stTerm = term r, stVote = vote r, stCommit = committed (log r)\<rparr>"

definition loadState :: "raft \<Rightarrow> pbState \<Rightarrow> raft option" where
  "loadState r st =
     (if stCommit st < committed (log r) \<or> lastIndex (log r) < stCommit st then None
      else Some (r\<lparr>log := (log r)\<lparr>committed := stCommit st\<rparr>, term := stTerm st,
                   vote := stVote st\<rparr>))"

definition restore :: "raft \<Rightarrow> snapshot \<Rightarrow> (bool \<times> raft) option" where
  "restore r ss =
     (if ssIndex ss \<le> committed (log r) then Some (False, r)
      else if \<not> isObserver r \<and> nodeID r \<in> set (mbObservers (ssMembership ss)) then None
      else if matchTerm (log r) (ssIndex ss) (ssTerm ss)
        then Some (False, r\<lparr>log := commitTo (log r) (ssIndex ss)\<rparr>)
      else Some (True, r\<lparr>log := restore_log (log r) ss\<rparr>))"

subsection \<open>Tick predicates\<close>

definition timeForElection :: "raft \<Rightarrow> bool" where
  "timeForElection r = (randomizedElectionTimeout r \<le> electionTick r)"

definition timeForHearbeat :: "raft \<Rightarrow> bool" where
  "timeForHearbeat r = (heartbeatTimeout r \<le> heartbeatTick r)"

definition timeForCheckQuorum :: "raft \<Rightarrow> bool" where
  "timeForCheckQuorum r = (electionTimeout r \<le> electionTick r)"

definition timeToAbortLeaderTransfer :: "raft \<Rightarrow> bool" where
  "timeToAbortLeaderTransfer r = (leaderTransfering r \<and> electionTimeout r \<le> electionTick r)"

definition quiescedTick :: "raft \<Rightarrow> raft" where
  "quiescedTick r = r\<lparr>electionTick := electionTick r + 1\<rparr>"

text \<open>One value is drawn from the random source; \<^verbatim>\<open>%\<close> by zero panics in Go.\<close>

definition setRandomizedElectionTimeout :: "raft \<Rightarrow> raft option" where
  "setRandomizedElectionTimeout r =
     (if electionTimeout r = 0 then None
      else (let randTime = shd (randSource r) mod electionTimeout r
            in Some (r\<lparr>randomizedElectionTimeout := electionTimeout r + randTime,
                       randSource := stl (randSource r)\<rparr>)))"

subsection \<open>Send and broadcast\<close>

definition isRequestMessage :: "MessageType \<Rightarrow> bool" where
  "isRequestMessage t = (t = Propose \<or> t = ReadIndex)"

definition isLeaderMessage :: "MessageType \<Rightarrow> bool" where
  "isLeaderMessage t = (t = Replicate \<or> t = InstallSnapshot \<or> t = Heartbeat \<or> t = TimeoutNow
     \<or> t = ReadIndexResp)"

definition finalizeMessageTerm :: "raft \<Rightarrow> message \<Rightarrow> message option" where
  "finalizeMessageTerm r m =
     (if mTerm m = 0 \<and> mType m = RequestVote then None
      else if 0 < mTerm m \<and> mType m \<noteq> RequestVote then None
      else Some (if \<not> isRequestMessage (mType m) then m\<lparr>mTerm := term r\<rparr> else m))"

definition send :: "raft \<Rightarrow> message \<Rightarrow> raft option" where
  "send r m = do {
     m1 \<leftarrow> finalizeMessageTerm r (m\<lparr>mFrom := nodeID r\<rparr>);
     Some (r\<lparr>msgs := msgs r @ [m1]\<rparr>)
   }"

definition makeInstallSnapshotMessage :: "raft \<Rightarrow> u64 \<Rightarrow> message \<Rightarrow> (message \<times> u64) option" where
  "makeInstallSnapshotMessage r to m =
     (let ss = snapshot_log (log r)
      in if IsEmptySnapshot ss then None
         else Some (m\<lparr>mTo := to, mType := InstallSnapshot, mSnapshot := ss\<rparr>, ssIndex ss))"

definition makeReplicateMessage ::
  "raft \<Rightarrow> u64 \<Rightarrow> u64 \<Rightarrow> u64 \<Rightarrow> (message \<times> logError option) option" where
  "makeReplicateMessage r to nxt maxSize =
     (case term_log (log r) (nxt - 1) of
        (t, Some err) \<Rightarrow> Some (emptyMessage, Some err)
      | (t, None) \<Rightarrow>
         (case entries_log (log r) nxt maxSize of
            (es, Some err) \<Rightarrow> Some (emptyMessage, Some err)
          | (es, None) \<Rightarrow>
              if es \<noteq> [] \<and> eIndex (last es) \<noteq> nxt - 1 + of_nat (length es) then None
              else Some (emptyMessage\<lparr>mTo := to, mType := Replicate, mLogIndex := nxt - 1,
                           mLogTerm := t, mEntries := es, mCommit := committed (log r)\<rparr>, None)))"

definition sendReplicateMessage :: "raft \<Rightarrow> u64 \<Rightarrow> raft option" where
  "sendReplicateMessage r to =
     (case lookupRemote r to of
        None \<Rightarrow> None
      | Some rp \<Rightarrow>
          if isPaused rp then Some r
          else (case makeReplicateMessage r to (next rp) (maxEntrySize r) of
                  None \<Rightarrow> None
                | Some (m, Some err) \<Rightarrow>
                    if \<not> isActive rp then Some r
                    else do {
                      (m1, index) \<leftarrow> makeInstallSnapshotMessage r to m;
                      send (updateRemote r to (becomeSnapshot index)) m1
                    }
                | Some (m, None) \<Rightarrow>
                    send (if mEntries m \<noteq> []
                          then updateRemote r to (progress (eIndex (last (mEntries m))))
                          else r) m))"

definition broadcastReplicateMessage :: "raft \<Rightarrow> raft option" where
  "broadcastReplicateMessage r = do {
     r1 \<leftarrow> forEach (\<lambda>nid r. if nid \<noteq> nodeID r then sendReplicateMessage r nid else Some r)
             (map fst (remotes r)) r;
     forEach (\<lambda>nid r. if nid = nodeID r then None else sendReplicateMessage r nid)
       (map fst (observers r1)) r1
   }"

definition sendHeartbeatMessage :: "raft \<Rightarrow> u64 \<Rightarrow> systemCtx \<Rightarrow> bool \<Rightarrow> raft option" where
  "sendHeartbeatMessage r to hint toObserver = do {
     rp \<leftarrow> map_of (if toObserver then observers r else remotes r) to;
     send r (emptyMessage\<lparr>mTo := to, mType := Heartbeat,
               mCommit := min (match rp) (committed (log r)),
               mHint := ctxLow hint, mHintHigh := ctxHigh hint\<rparr>)
   }"

definition broadcastHeartbeatMessageWithHint :: "raft \<Rightarrow> systemCtx \<Rightarrow> raft option" where
  "broadcastHeartbeatMessageWithHint r ctx = do {
     r1 \<leftarrow> forEach (\<lambda>id r. if id \<noteq> nodeID r then sendHeartbeatMessage r id ctx False else Some r)
             (map fst (remotes r)) r;
     if ctx = zeroCtx
     then forEach (\<lambda>id r. sendHeartbeatMessage r id zeroCtx True) (map fst (observers r1)) r1
     else Some r1
   }"

definition broadcastHeartbeatMessage :: "raft \<Rightarrow> raft option" where
  "broadcastHeartbeatMessage r =
     (if hasPendingRequest (readIndex r)
      then broadcastHeartbeatMessageWithHint r (peepCtx (readIndex r))
      else broadcastHeartbeatMessageWithHint r zeroCtx)"

definition sendTimeoutNowMessage :: "raft \<Rightarrow> u64 \<Rightarrow> raft option" where
  "sendTimeoutNowMessage r target = send r (emptyMessage\<lparr>mType := TimeoutNow, mTo := target\<rparr>)"

subsection \<open>Log append and commit\<close>

definition swapIfGreater :: "nat \<Rightarrow> nat \<Rightarrow> u64 list \<Rightarrow> u64 list" where
  "swapIfGreater i j xs = (if xs ! j < xs ! i then xs[i := xs ! j, j := xs ! i] else xs)"

text \<open>The unrolled bubble sort for three voters; \<^verbatim>\<open>sort.Slice\<close> with \<open><\<close> otherwise.\<close>

definition sortMatchValues :: "raft \<Rightarrow> raft" where
  "sortMatchValues r =
     (if length (matched r) = 3
      then r\<lparr>matched := swapIfGreater 0 1 (swapIfGreater 1 2 (swapIfGreater 0 1 (matched r)))\<rparr>
      else r\<lparr>matched := sort (matched r)\<rparr>)"

fun fillMatched :: "u64 list \<Rightarrow> nat \<Rightarrow> remote list \<Rightarrow> u64 list" where
  "fillMatched ms idx [] = ms"
| "fillMatched ms idx (v # vs) = fillMatched (ms[idx := match v]) (Suc idx) vs"

text \<open>The index \<^verbatim>\<open>len(r.remotes)-r.quorum()\<close> is negative, and the read panics, exactly
  when there is no voter.\<close>

definition tryCommit :: "raft \<Rightarrow> (bool \<times> raft) option" where
  "tryCommit r =
     (let r1 = (if length (remotes r) \<noteq> length (matched r) then resetMatchValueArray r else r);
          r2 = r1\<lparr>matched := fillMatched (matched r1) 0 (map snd (remotes r1))\<rparr>;
          r3 = sortMatchValues r2
      in if length (remotes r3) < quorum r3 then None
         else (let q = matched r3 ! (length (remotes r3) - quorum r3);
                   (ok, l) = tryCommit_log (log r3) q (term r3)
               in Some (ok, r3\<lparr>log := l\<rparr>)))"

definition appendEntries :: "raft \<Rightarrow> entry list \<Rightarrow> raft option" where
  "appendEntries r entries =
     (let lastIdx = lastIndex (log r);
          es = map (\<lambda>(i, e). e\<lparr>eTerm := term r, eIndex := lastIdx + 1 + of_nat i\<rparr>)
                 (enumerate 0 entries);
          r1 = r\<lparr>log := append_log (log r) es\<rparr>
      in case map_of (remotes r1) (nodeID r1) of
           None \<Rightarrow> None
         | Some rp \<Rightarrow>
            (let r2 = r1\<lparr>remotes := AList.update (nodeID r1)
                         (snd (tryUpdate (lastIndex (log r1)) rp)) (remotes r1)\<rparr>
             in if isSingleNodeQuorum r2 then map_option snd (tryCommit r2) else Some r2))"

subsection \<open>Pending configuration change\<close>

definition setPendingConfigChange :: "raft \<Rightarrow> raft" where
  "setPendingConfigChange r = r\<lparr>pendingConfigChange := True\<rparr>"

definition hasPendingConfigChange :: "raft \<Rightarrow> bool" where
  "hasPendingConfigChange r = pendingConfigChange r"

definition clearPendingConfigChange :: "raft \<Rightarrow> raft" where
  "clearPendingConfigChange r = r\<lparr>pendingConfigChange := False\<rparr>"

text \<open>The loop of \<^verbatim>\<open>getPendingConfigChangeCount\<close>: it ends when the log returns no entry
  and panics when the log reports an error. \<open>None\<close> is a panic or a loop that never ends.\<close>

partial_function (option) countPendingFrom :: "entryLog \<Rightarrow> u64 \<Rightarrow> u64 \<Rightarrow> nat \<Rightarrow> nat option" where
  "countPendingFrom l maxSize idx count =
     (case entries_log l idx maxSize of
        (es, Some err) \<Rightarrow> None
      | (es, None) \<Rightarrow>
          if es = [] then Some count
          else countPendingFrom l maxSize (eIndex (last es) + 1) (count + countConfigChange es))"

definition getPendingConfigChangeCount :: "raft \<Rightarrow> nat option" where
  "getPendingConfigChangeCount r =
     countPendingFrom (log r) (maxEntriesToApplySize r) (committed (log r) + 1) 0"

subsection \<open>State transitions\<close>

definition resetRemotes :: "raft \<Rightarrow> raft" where
  "resetRemotes r =
     r\<lparr>remotes := map (\<lambda>(id, rp). (id, if id = nodeID r
                                           then newRemote (lastIndex (log r)) (lastIndex (log r) + 1)
                                           else newRemote 0 (lastIndex (log r) + 1)))
                    (remotes r)\<rparr>"

definition resetObservers :: "raft \<Rightarrow> raft" where
  "resetObservers r =
     r\<lparr>observers := map (\<lambda>(id, rp). (id, if id = nodeID r
                                             then newRemote (lastIndex (log r)) (lastIndex (log r) + 1)
                                             else newRemote 0 (lastIndex (log r) + 1)))
                      (observers r)\<rparr>"

definition reset :: "raft \<Rightarrow> u64 \<Rightarrow> raft option" where
  "reset r t = do {
     let r1 = (if term r \<noteq> t then r\<lparr>term := t, vote := NoLeader\<rparr> else r);
     let r2 = setLeaderID r1 NoLeader;
     let r3 = r2\<lparr>votes := [], electionTick := 0, heartbeatTick := 0\<rparr>;
     r4 \<leftarrow> setRandomizedElectionTimeout r3;
     let r5 = r4\<lparr>readIndex := newReadIndex\<rparr>;
     let r6 = clearPendingConfigChange r5;
     let r7 = abortLeaderTransfer r6;
     let r8 = resetRemotes r7;
     let r9 = resetObservers r8;
     Some (resetMatchValueArray r9)
   }"

definition preLeaderPromotionHandleConfigChange :: "raft \<Rightarrow> raft option" where
  "preLeaderPromotionHandleConfigChange r = do {
     n \<leftarrow> getPendingConfigChangeCount r;
     if 1 < n then None
     else if n = 1 then Some (setPendingConfigChange r)
     else Some r
   }"

definition becomeObserver :: "raft \<Rightarrow> u64 \<Rightarrow> u64 \<Rightarrow> raft option" where
  "becomeObserver r t lid =
     (if state r \<noteq> observer then None
      else do { r1 \<leftarrow> reset r t; Some (setLeaderID r1 lid) })"

definition becomeFollower :: "raft \<Rightarrow> u64 \<Rightarrow> u64 \<Rightarrow> raft option" where
  "becomeFollower r t lid = do {
     r1 \<leftarrow> reset (r\<lparr>state := follower\<rparr>) t;
     Some (setLeaderID r1 lid)
   }"

definition becomeCandidate :: "raft \<Rightarrow> raft option" where
  "becomeCandidate r =
     (if state r = leader then None
      else if state r = observer then None
      else do {
        r1 \<leftarrow> reset (r\<lparr>state := candidate\<rparr>) (term r + 1);
        Some (r1\<lparr>vote := nodeID r1\<rparr>)
      })"

definition becomeLeader :: "raft \<Rightarrow> raft option" where
  "becomeLeader r =
     (if state r = follower then None
      else if state r = observer then None
      else do {
        r1 \<leftarrow> reset (r\<lparr>state := leader\<rparr>) (term r);
        let r2 = setLeaderID r1 (nodeID r1);
        r3 \<leftarrow> preLeaderPromotionHandleConfigChange r2;
        appendEntries r3 [\<lparr>eType = ApplicationEntry, eTerm = 0, eIndex = 0, eCmd = []\<rparr>]
      })"

subsection \<open>Election\<close>

definition handleVoteResp :: "raft \<Rightarrow> u64 \<Rightarrow> bool \<Rightarrow> nat \<times> raft" where
  "handleVoteResp r from rejected =
     (let r1 = (case map_of (votes r) from of
                  None \<Rightarrow> r\<lparr>votes := AList.update from (\<not> rejected) (votes r)\<rparr>
                | Some v \<Rightarrow> r)
      in (length (filter snd (votes r1)), r1))"

definition campaign :: "raft \<Rightarrow> raft option" where
  "campaign r = do {
     r1 \<leftarrow> becomeCandidate r;
     let t = term r1;
     let r2 = snd (handleVoteResp r1 (nodeID r1) False);
     if isSingleNodeQuorum r2 then becomeLeader r2
     else do {
       let hint = (if isLeaderTransferTarget r2 then nodeID r2 else 0);
       let r3 = (if isLeaderTransferTarget r2 then r2\<lparr>isLeaderTransferTarget := False\<rparr> else r2);
       forEach (\<lambda>k r. if k = nodeID r then Some r
                       else send r (emptyMessage\<lparr>mTerm := t, mTo := k, mType := RequestVote,
                              mLogIndex := lastIndex (log r), mLogTerm := lastTerm (log r),
                              mHint := hint\<rparr>))
         (map fst (remotes r3)) r3
     }
   }"

subsection \<open>Membership\<close>

definition selfRemoved :: "raft \<Rightarrow> bool" where
  "selfRemoved r =
     (if state r = observer then map_of (observers r) (nodeID r) = None
      else map_of (remotes r) (nodeID r) = None)"

subsection \<open>Handlers shared by several roles\<close>

definition handleHeartbeatMessage :: "raft \<Rightarrow> message \<Rightarrow> raft option" where
  "handleHeartbeatMessage r m =
     send (r\<lparr>log := commitTo (log r) (mCommit m)\<rparr>)
       (emptyMessage\<lparr>mTo := mFrom m, mType := HeartbeatResp, mHint := mHint m,
          mHintHigh := mHintHigh m\<rparr>)"

definition handleInstallSnapshotMessage :: "raft \<Rightarrow> message \<Rightarrow> raft option" where
  "handleInstallSnapshotMessage r m = do {
     let resp = emptyMessage\<lparr>mTo := mFrom m, mType := ReplicateResp\<rparr>;
     (ok, r1) \<leftarrow> restore r (mSnapshot m);
     if ok then send r1 (resp\<lparr>mLogIndex := lastIndex (log r1)\<rparr>)
     else send r1 (resp\<lparr>mLogIndex := committed (log r1)\<rparr>)
   }"

definition handleReplicateMessage :: "raft \<Rightarrow> message \<Rightarrow> raft option" where
  "handleReplicateMessage r m =
     (let resp = emptyMessage\<lparr>mTo := mFrom m, mType := ReplicateResp\<rparr>
      in if mLogIndex m < committed (log r) then send r (resp\<lparr>mLogIndex := committed (log r)\<rparr>)
         else if matchTerm (log r) (mLogIndex m) (mLogTerm m) then do {
           l1 \<leftarrow> tryAppend (log r) (mLogIndex m) (mEntries m);
           let lastIdx = mLogIndex m + of_nat (length (mEntries m));
           send (r\<lparr>log := commitTo l1 (min lastIdx (mCommit m))\<rparr>) (resp\<lparr>mLogIndex := lastIdx\<rparr>)
         }
         else send r (resp\<lparr>mReject := True, mLogIndex := mLogIndex m,
                        mHint := lastIndex (log r)\<rparr>))"

subsection \<open>Term reconciliation\<close>

definition dropRequestVoteFromHighTermNode :: "raft \<Rightarrow> message \<Rightarrow> bool" where
  "dropRequestVoteFromHighTermNode r m =
     (if mType m \<noteq> RequestVote \<or> \<not> checkQuorum r \<or> mTerm m \<le> term r then False
      else if mHint m = mFrom m then False
      else if leaderID r \<noteq> NoLeader \<and> electionTick r < electionTimeout r then True
      else False)"

text \<open>The result is the flag "ignore the message" and the state.\<close>

definition onMessageTermNotMatched :: "raft \<Rightarrow> message \<Rightarrow> (bool \<times> raft) option" where
  "onMessageTermNotMatched r m =
     (if mTerm m = 0 \<or> mTerm m = term r then Some (False, r)
      else if dropRequestVoteFromHighTermNode r m then Some (True, r)
      else if term r < mTerm m then
        (let lid = (if isLeaderMessage (mType m) then mFrom m else NoLeader)
         in map_option (Pair False)
              (if isObserver r then becomeObserver r (mTerm m) lid
               else becomeFollower r (mTerm m) lid))
      else if mTerm m < term r then
        (if isLeaderMessage (mType m) \<and> checkQuorum r
         then map_option (Pair True) (send r (emptyMessage\<lparr>mTo := mFrom m, mType := NoOP\<rparr>))
         else Some (True, r))
      else Some (False, r))"

definition doubleCheckTermMatched :: "raft \<Rightarrow> u64 \<Rightarrow> unit option" where
  "doubleCheckTermMatched r msgTerm = (if msgTerm \<noteq> 0 \<and> term r \<noteq> msgTerm then None else Some ())"

definition hasConfigChangeToApply :: "raft \<Rightarrow> bool" where
  "hasConfigChangeToApply r =
     (case hasNotAppliedConfigChange r of
        Some b \<Rightarrow> b
      | None \<Rightarrow> getApplied r < committed (log r))"

definition canGrantVote :: "raft \<Rightarrow> message \<Rightarrow> bool" where
  "canGrantVote r m = (vote r = NoNode \<or> vote r = mFrom m \<or> term r < mTerm m)"

subsection \<open>Handlers for nodes in any state\<close>

definition handleNodeElection :: "raft \<Rightarrow> message \<Rightarrow> raft option" where
  "handleNodeElection r m =
     (if state r \<noteq> leader then
        (if hasConfigChangeToApply r then Some r else campaign r)
      else Some r)"

definition handleNodeRequestVote :: "raft \<Rightarrow> message \<Rightarrow> raft option" where
  "handleNodeRequestVote r m =
     (let resp = emptyMessage\<lparr>mTo := mFrom m, mType := RequestVoteResp\<rparr>;
          canGrant = canGrantVote r m;
          isUpToDate = upToDate (log r) (mLogIndex m) (mLogTerm m)
      in if canGrant \<and> isUpToDate then send (r\<lparr>electionTick := 0, vote := mFrom m\<rparr>) resp
         else send r (resp\<lparr>mReject := True\<rparr>))"

subsection \<open>Handlers of the leader\<close>

definition handleLeaderLeaderHeartbeat :: "raft \<Rightarrow> message \<Rightarrow> raft option" where
  "handleLeaderLeaderHeartbeat r m = broadcastHeartbeatMessage r"

definition handleLeaderCheckQuorum :: "raft \<Rightarrow> message \<Rightarrow> raft option" where
  "handleLeaderCheckQuorum r m =
     (let (ok, r1) = leaderHasQuorum r
      in if \<not> ok then becomeFollower r1 (term r1) NoLeader else Some r1)"

text \<open>The loop of \<^verbatim>\<open>handleLeaderPropose\<close> over the proposed entries: a ConfigChange entry
  met while one is pending becomes an empty Application entry, and the flag is set either way.\<close>

fun dropExtraConfigChange :: "bool \<Rightarrow> entry list \<Rightarrow> entry list \<times> bool" where
  "dropExtraConfigChange p [] = ([], p)"
| "dropExtraConfigChange p (e # es) =
     (if eType e = ConfigChangeEntry then
        (let e1 = (if p then \<lparr>eType = ApplicationEntry, eTerm = 0, eIndex = 0, eCmd = []\<rparr> else e);
             (es1, p1) = dropExtraConfigChange True es
         in (e1 # es1, p1))
      else (let (es1, p1) = dropExtraConfigChange p es in (e # es1, p1)))"

definition handleLeaderPropose :: "raft \<Rightarrow> message \<Rightarrow> raft option" where
  "handleLeaderPropose r m =
     (if selfRemoved r then Some r
      else if leaderTransfering r then Some r
      else do {
        let (es, p) = dropExtraConfigChange (hasPendingConfigChange r) (mEntries m);
        r1 \<leftarrow> appendEntries (r\<lparr>pendingConfigChange := p\<rparr>) es;
        broadcastReplicateMessage r1
      })"

definition hasCommittedEntryAtCurrentTerm :: "raft \<Rightarrow> bool option" where
  "hasCommittedEntryAtCurrentTerm r =
     (if term r = 0 then None
      else (case term_log (log r) (committed (log r)) of
              (lastCommittedTerm, err) \<Rightarrow>
                if err \<noteq> None \<and> err \<noteq> Some ErrCompacted then None
                else Some (lastCommittedTerm = term r)))"

definition clearReadyToRead :: "raft \<Rightarrow> raft" where
  "clearReadyToRead r = r\<lparr>readyToRead := []\<rparr>"

definition addReadyToRead :: "raft \<Rightarrow> u64 \<Rightarrow> systemCtx \<Rightarrow> raft" where
  "addReadyToRead r index ctx =
     r\<lparr>readyToRead := readyToRead r @ [\<lparr>rtrIndex = index, rtrCtx = ctx\<rparr>]\<rparr>"

definition handleLeaderReadIndex :: "raft \<Rightarrow> message \<Rightarrow> raft option" where
  "handleLeaderReadIndex r m =
     (let ctx = \<lparr>ctxLow = mHint m, ctxHigh = mHintHigh m\<rparr>
      in if \<not> isSingleNodeQuorum r then do {
           ok \<leftarrow> hasCommittedEntryAtCurrentTerm r;
           if \<not> ok then Some r
           else broadcastHeartbeatMessageWithHint
                  (r\<lparr>readIndex := addRequest (committed (log r)) ctx (mFrom m) (readIndex r)\<rparr>) ctx
         }
         else (let r1 = addReadyToRead r (committed (log r)) ctx
               in if mFrom m \<noteq> nodeID r1 \<and> map_of (observers r1) (mFrom m) \<noteq> None
                  then send r1 (emptyMessage\<lparr>mTo := mFrom m, mType := ReadIndexResp,
                                  mLogIndex := committed (log r1), mHint := mHint m,
                                  mHintHigh := mHintHigh m, mCommit := mCommit m\<rparr>)
                  else Some r1))"

definition enterRetryState :: "raft \<Rightarrow> u64 \<Rightarrow> raft" where
  "enterRetryState r from =
     updateRemote r from (\<lambda>rp. if rstate rp = remoteReplicate then becomeRetry rp else rp)"

text \<open>The handlers below receive from \<^verbatim>\<open>lw\<close> the peer record \<^verbatim>\<open>rp\<close> of the sender; here
  it is the record found for \<open>mFrom m\<close>.\<close>

definition handleLeaderReplicateResp :: "raft \<Rightarrow> message \<Rightarrow> raft option" where
  "handleLeaderReplicateResp r m = do {
     let r1 = updateRemote r (mFrom m) setActive;
     rp \<leftarrow> lookupRemote r1 (mFrom m);
     if \<not> mReject m then do {
       let paused = isPaused rp;
       let (ok, rp1) = tryUpdate (mLogIndex m) rp;
       let r2 = updateRemote r1 (mFrom m) (\<lambda>_. rp1);
       if ok then do {
         let r3 = updateRemote r2 (mFrom m) respondedTo;
         (advanced, r4) \<leftarrow> tryCommit r3;
         r5 \<leftarrow> (if advanced then broadcastReplicateMessage r4
                else if paused then sendReplicateMessage r4 (mFrom m)
                else Some r4);
         rp5 \<leftarrow> lookupRemote r5 (mFrom m);
         if leaderTransfering r5 \<and> mFrom m = leaderTransferTarget r5
              \<and> lastIndex (log r5) = match rp5
         then sendTimeoutNowMessage r5 (leaderTransferTarget r5)
         else Some r5
       }
       else Some r2
     }
     else do {
       let (ok, rp1) = decreaseTo (mLogIndex m) (mHint m) rp;
       let r2 = updateRemote r1 (mFrom m) (\<lambda>_. rp1);
       if ok then sendReplicateMessage (enterRetryState r2 (mFrom m)) (mFrom m)
       else Some r2
     }
   }"

definition handleReadIndexLeaderConfirmation :: "raft \<Rightarrow> message \<Rightarrow> raft option" where
  "handleReadIndexLeaderConfirmation r m =
     (let ctx = \<lparr>ctxLow = mHint m, ctxHigh = mHintHigh m\<rparr>;
          (ris, q) = confirm ctx (mFrom m) (quorum r) (readIndex r)
      in forEach (\<lambda>s r. if rsFrom s = NoNode \<or> rsFrom s = nodeID r
                         then Some (addReadyToRead r (rsIndex s) (rsCtx s))
                         else send r (emptyMessage\<lparr>mTo := rsFrom s, mType := ReadIndexResp,
                                mLogIndex := rsIndex s, mHint := mHint m,
                                mHintHigh := mHintHigh m\<rparr>))
           ris (r\<lparr>readIndex := q\<rparr>))"

definition handleLeaderHeartbeatResp :: "raft \<Rightarrow> message \<Rightarrow> raft option" where
  "handleLeaderHeartbeatResp r m = do {
     let r1 = updateRemote r (mFrom m) setActive;
     let r2 = updateRemote r1 (mFrom m) waitToRetry;
     rp \<leftarrow> lookupRemote r2 (mFrom m);
     r3 \<leftarrow> (if match rp < lastIndex (log r2) then sendReplicateMessage r2 (mFrom m) else Some r2);
     if mHint m \<noteq> 0 then handleReadIndexLeaderConfirmation r3 m else Some r3
   }"

definition handleLeaderLeaderTransfer :: "raft \<Rightarrow> message \<Rightarrow> raft option" where
  "handleLeaderLeaderTransfer r m =
     (let target = mHint m
      in if target = NoNode then None
         else if leaderTransfering r then Some r
         else if nodeID r = target then Some r
         else do {
           rp \<leftarrow> lookupRemote r (mFrom m);
           let r1 = r\<lparr>leaderTransferTarget := target, electionTick := 0\<rparr>;
           if match rp = lastIndex (log r1) then sendTimeoutNowMessage r1 target else Some r1
         })"

definition handleLeaderSnapshotStatus :: "raft \<Rightarrow> message \<Rightarrow> raft option" where
  "handleLeaderSnapshotStatus r m = do {
     rp \<leftarrow> lookupRemote r (mFrom m);
     if rstate rp \<noteq> remoteSnapshot then Some r
     else (let r1 = (if mReject m then updateRemote r (mFrom m) clearPendingSnapshot else r)
           in Some (updateRemote r1 (mFrom m) becomeWait))
   }"

definition handleLeaderUnreachable :: "raft \<Rightarrow> message \<Rightarrow> raft option" where
  "handleLeaderUnreachable r m = Some (enterRetryState r (mFrom m))"

text \<open>\<^verbatim>\<open>lw\<close> wraps a leader handler that needs the peer record of the sender: without such a
  record the message is dropped.\<close>

definition lw :: "(raft \<Rightarrow> message \<Rightarrow> raft option) \<Rightarrow> raft \<Rightarrow> message \<Rightarrow> raft option" where
  "lw f r nm = (case lookupRemote r (mFrom nm) of Some rp \<Rightarrow> f r nm | None \<Rightarrow> Some r)"

subsection \<open>Handlers of the follower\<close>

definition handleFollowerPropose :: "raft \<Rightarrow> message \<Rightarrow> raft option" where
  "handleFollowerPropose r m =
     (if leaderID r = NoLeader then Some r else send r (m\<lparr>mTo := leaderID r\<rparr>))"

definition handleFollowerReplicate :: "raft \<Rightarrow> message \<Rightarrow> raft option" where
  "handleFollowerReplicate r m =
     handleReplicateMessage (setLeaderID (r\<lparr>electionTick := 0\<rparr>) (mFrom m)) m"

definition handleFollowerHeartbeat :: "raft \<Rightarrow> message \<Rightarrow> raft option" where
  "handleFollowerHeartbeat r m =
     handleHeartbeatMessage (setLeaderID (r\<lparr>electionTick := 0\<rparr>) (mFrom m)) m"

definition handleFollowerReadIndex :: "raft \<Rightarrow> message \<Rightarrow> raft option" where
  "handleFollowerReadIndex r m =
     (if leaderID r = NoLeader then Some r else send r (m\<lparr>mTo := leaderID r\<rparr>))"

definition handleFollowerLeaderTransfer :: "raft \<Rightarrow> message \<Rightarrow> raft option" where
  "handleFollowerLeaderTransfer r m =
     (if leaderID r = NoLeader then Some r else send r (m\<lparr>mTo := leaderID r\<rparr>))"

definition handleFollowerReadIndexResp :: "raft \<Rightarrow> message \<Rightarrow> raft option" where
  "handleFollowerReadIndexResp r m =
     (let ctx = \<lparr>ctxLow = mHint m, ctxHigh = mHintHigh m\<rparr>
      in Some (addReadyToRead (setLeaderID (r\<lparr>electionTick := 0\<rparr>) (mFrom m)) (mLogIndex m) ctx))"

definition handleFollowerInstallSnapshot :: "raft \<Rightarrow> message \<Rightarrow> raft option" where
  "handleFollowerInstallSnapshot r m =
     handleInstallSnapshotMessage (setLeaderID (r\<lparr>electionTick := 0\<rparr>) (mFrom m)) m"

subsection \<open>Handlers of the observer, routed to those of the follower\<close>

definition handleObserverReplicate :: "raft \<Rightarrow> message \<Rightarrow> raft option" where
  "handleObserverReplicate r m = handleFollowerReplicate r m"

definition handleObserverHeartbeat :: "raft \<Rightarrow> message \<Rightarrow> raft option" where
  "handleObserverHeartbeat r m = handleFollowerHeartbeat r m"

definition handleObserverSnapshot :: "raft \<Rightarrow> message \<Rightarrow> raft option" where
  "handleObserverSnapshot r m = handleFollowerInstallSnapshot r m"

definition handleObserverPropose :: "raft \<Rightarrow> message \<Rightarrow> raft option" where
  "handleObserverPropose r m = handleFollowerPropose r m"

definition handleObserverReadIndex :: "raft \<Rightarrow> message \<Rightarrow> raft option" where
  "handleObserverReadIndex r m = handleFollowerReadIndex r m"

definition handleObserverReadIndexResp :: "raft \<Rightarrow> message \<Rightarrow> raft option" where
  "handleObserverReadIndexResp r m = handleFollowerReadIndexResp r m"

subsection \<open>Handlers of the candidate\<close>

definition handleCandidatePropose :: "raft \<Rightarrow> message \<Rightarrow> raft option" where
  "handleCandidatePropose r m = Some r"

definition handleCandidateReplicate :: "raft \<Rightarrow> message \<Rightarrow> raft option" where
  "handleCandidateReplicate r m = do {
     r1 \<leftarrow> becomeFollower r (term r) (mFrom m);
     handleReplicateMessage r1 m
   }"

definition handleCandidateInstallSnapshot :: "raft \<Rightarrow> message \<Rightarrow> raft option" where
  "handleCandidateInstallSnapshot r m = do {
     r1 \<leftarrow> becomeFollower r (term r) (mFrom m);
     handleInstallSnapshotMessage r1 m
   }"

definition handleCandidateHeartbeat :: "raft \<Rightarrow> message \<Rightarrow> raft option" where
  "handleCandidateHeartbeat r m = do {
     r1 \<leftarrow> becomeFollower r (term r) (mFrom m);
     handleHeartbeatMessage r1 m
   }"

definition handleCandidateRequestVoteResp :: "raft \<Rightarrow> message \<Rightarrow> raft option" where
  "handleCandidateRequestVoteResp r m =
     (if map_of (observers r) (mFrom m) \<noteq> None then Some r
      else (let (count, r1) = handleVoteResp r (mFrom m) (mReject m)
            in if count = quorum r1 then do {
                 r2 \<leftarrow> becomeLeader r1;
                 broadcastReplicateMessage r2
               }
               else if length (votes r1) - count = quorum r1
                 then becomeFollower r1 (term r1) NoLeader
               else Some r1))"

subsection \<open>Tick and dispatch\<close>

text \<open>
  \<^verbatim>\<open>tick\<close> steps the node through \<^verbatim>\<open>Handle\<close>, and the follower's TimeoutNow handler, which
  \<^verbatim>\<open>Handle\<close> dispatches to, calls \<^verbatim>\<open>tick\<close>: the six functions are defined together. The
  nested case of \<open>defaultHandle\<close> is the table that \<^verbatim>\<open>initializeHandlerMap\<close> fills; a pair of
  role and message type with no handler leaves the state as it is.
\<close>

function tick :: "raft \<Rightarrow> raft option"
  and nonLeaderTick :: "raft \<Rightarrow> raft option"
  and leaderTick :: "raft \<Rightarrow> raft option"
  and Handle :: "raft \<Rightarrow> message \<Rightarrow> raft option"
  and defaultHandle :: "raft \<Rightarrow> message \<Rightarrow> raft option"
  and handleFollowerTimeoutNow :: "raft \<Rightarrow> message \<Rightarrow> raft option"
where
  "tick r =
     (let r1 = r\<lparr>tickCount := tickCount r + 1\<rparr>
      in if state r1 = leader then leaderTick r1 else nonLeaderTick r1)"
| "nonLeaderTick r =
     (if state r = leader then None
      else (let r1 = r\<lparr>electionTick := electionTick r + 1\<rparr>
            in if isObserver r1 then Some r1
               else if \<not> selfRemoved r1 \<and> timeForElection r1
                 then Handle (r1\<lparr>electionTick := 0\<rparr>)
                        (emptyMessage\<lparr>mFrom := nodeID r1, mType := Election\<rparr>)
               else Some r1))"
| "leaderTick r =
     (if state r \<noteq> leader then None
      else do {
        let r1 = r\<lparr>electionTick := electionTick r + 1\<rparr>;
        let abort = timeToAbortLeaderTransfer r1;
        r2 \<leftarrow> (if timeForCheckQuorum r1 then
                 (let r1a = r1\<lparr>electionTick := 0\<rparr>
                  in if checkQuorum r1a
                     then Handle r1a (emptyMessage\<lparr>mFrom := nodeID r1a, mType := CheckQuorum\<rparr>)
                     else Some r1a)
               else Some r1);
        let r3 = (if abort then abortLeaderTransfer r2 else r2);
        let r4 = r3\<lparr>heartbeatTick := heartbeatTick r3 + 1\<rparr>;
        if timeForHearbeat r4
        then Handle (r4\<lparr>heartbeatTick := 0\<rparr>)
               (emptyMessage\<lparr>mFrom := nodeID r4, mType := LeaderHeartbeat\<rparr>)
        else Some r4
      })"
| "Handle r m = do {
     (ignore, r1) \<leftarrow> onMessageTermNotMatched r m;
     if \<not> ignore then do {
       doubleCheckTermMatched r1 (mTerm m);
       defaultHandle r1 m
     }
     else Some r1
   }"
| "defaultHandle r m =
     (case state r of
        candidate \<Rightarrow>
          (case mType m of
             Heartbeat \<Rightarrow> handleCandidateHeartbeat r m
           | Propose \<Rightarrow> handleCandidatePropose r m
           | Replicate \<Rightarrow> handleCandidateReplicate r m
           | InstallSnapshot \<Rightarrow> handleCandidateInstallSnapshot r m
           | RequestVoteResp \<Rightarrow> handleCandidateRequestVoteResp r m
           | Election \<Rightarrow> handleNodeElection r m
           | RequestVote \<Rightarrow> handleNodeRequestVote r m
           | _ \<Rightarrow> Some r)
      | follower \<Rightarrow>
          (case mType m of
             Propose \<Rightarrow> handleFollowerPropose r m
           | Replicate \<Rightarrow> handleFollowerReplicate r m
           | Heartbeat \<Rightarrow> handleFollowerHeartbeat r m
           | ReadIndex \<Rightarrow> handleFollowerReadIndex r m
           | LeaderTransfer \<Rightarrow> handleFollowerLeaderTransfer r m
           | ReadIndexResp \<Rightarrow> handleFollowerReadIndexResp r m
           | InstallSnapshot \<Rightarrow> handleFollowerInstallSnapshot r m
           | Election \<Rightarrow> handleNodeElection r m
           | RequestVote \<Rightarrow> handleNodeRequestVote r m
           | TimeoutNow \<Rightarrow> handleFollowerTimeoutNow r m
           | _ \<Rightarrow> Some r)
      | leader \<Rightarrow>
          (case mType m of
             LeaderHeartbeat \<Rightarrow> handleLeaderLeaderHeartbeat r m
           | CheckQuorum \<Rightarrow> handleLeaderCheckQuorum r m
           | Propose \<Rightarrow> handleLeaderPropose r m
           | ReadIndex \<Rightarrow> handleLeaderReadIndex r m
           | ReplicateResp \<Rightarrow> lw handleLeaderReplicateResp r m
           | HeartbeatResp \<Rightarrow> lw handleLeaderHeartbeatResp r m
           | SnapshotStatus \<Rightarrow> lw handleLeaderSnapshotStatus r m
           | Unreachable \<Rightarrow> lw handleLeaderUnreachable r m
           | LeaderTransfer \<Rightarrow> lw handleLeaderLeaderTransfer r m
           | Election \<Rightarrow> handleNodeElection r m
           | RequestVote \<Rightarrow> handleNodeRequestVote r m
           | _ \<Rightarrow> Some r)
      | observer \<Rightarrow>
          (case mType m of
             Heartbeat \<Rightarrow> handleObserverHeartbeat r m
           | Replicate \<Rightarrow> handleObserverReplicate r m
           | InstallSnapshot \<Rightarrow> handleObserverSnapshot r m
           | Propose \<Rightarrow> handleObserverPropose r m
           | ReadIndex \<Rightarrow> handleObserverReadIndex r m
           | ReadIndexResp \<Rightarrow> handleObserverReadIndexResp r m
           | _ \<Rightarrow> Some r))"
| "handleFollowerTimeoutNow r m = do {
     r1 \<leftarrow> tick (r\<lparr>electionTick := randomizedElectionTimeout r, isLeaderTransferTarget := True\<rparr>);
     Some (if isLeaderTransferTarget r1 then r1\<lparr>isLeaderTransferTarget := False\<rparr> else r1)
   }"
  by pat_completeness auto

termination
  by (relation "measure (\<lambda>x. case x of
         Inl (Inl r) \<Rightarrow> 3
       | Inl (Inr (Inl r)) \<Rightarrow> 2
       | Inl (Inr (Inr r)) \<Rightarrow> 2
       | Inr (Inl (r, m)) \<Rightarrow> (if mType m = TimeoutNow then 6 else 1)
       | Inr (Inr (Inl (r, m))) \<Rightarrow> (if mType m = TimeoutNow then 5 else 0)
       | Inr (Inr (Inr (r, m))) \<Rightarrow> 4)")
     (auto simp: emptyMessage_def)

declare tick.simps [simp del] nonLeaderTick.simps [simp del] leaderTick.simps [simp del]
  Handle.simps [simp del] defaultHandle.simps [simp del] handleFollowerTimeoutNow.simps [simp del]

text \<open>\<open>ticks n\<close> is \<open>n\<close> calls of \<^verbatim>\<open>tick()\<close> in a row.\<close>

fun ticks :: "nat \<Rightarrow> raft \<Rightarrow> raft option" where
  "ticks 0 r = Some r"
| "ticks (Suc n) r = tick r \<bind> ticks n"

subsection \<open>Construction\<close>

text \<open>Modelled from the spec: the configuration, "{clusterId, nodeId, electionRTT, heartbeatRTT,
  checkQuorum, isObserver, maxEntryBytes} with electionRTT > heartbeatRTT > 0" (package config is
  not part of the sources at hand).\<close>

record config =
  ClusterID :: u64
  NodeID :: u64
  ElectionRTT :: u64
  HeartbeatRTT :: u64
  CheckQuorum' :: bool
  IsObserver :: bool
  MaxEntryBytes :: u64

definition Validate :: "config \<Rightarrow> bool" where
  "Validate c = (0 < HeartbeatRTT c \<and> HeartbeatRTT c < ElectionRTT c)"

text \<open>Modelled from the spec: the log DB handed to \<^verbatim>\<open>newRaft\<close>, "NodeState() \<rightarrow>
  (persistedState, membership)", together with the log view \<^verbatim>\<open>newEntryLog\<close> builds on it.\<close>

record logdb =
  dbState :: pbState
  dbMembership :: membership
  dbLog :: entryLog

text \<open>\<open>rnd\<close> is the random source and \<open>applyLimit\<close> the constant
  \<^verbatim>\<open>maxEntriesToApplySize\<close>; a nil \<^verbatim>\<open>logdb\<close> is \<open>None\<close>.\<close>

definition newRaft :: "config \<Rightarrow> logdb option \<Rightarrow> u64 stream \<Rightarrow> u64 \<Rightarrow> raft option" where
  "newRaft c logdb rnd applyLimit =
     (if \<not> Validate c then None
      else case logdb of
        None \<Rightarrow> None
      | Some db \<Rightarrow> do {
          let r = \<lparr>applied = 0, nodeID = NodeID c, clusterID = ClusterID c, term = 0, vote = 0,
                   log = dbLog db, remotes = [], observers = [], state = follower, votes = [],
                   msgs = [], leaderID = NoLeader, leaderTransferTarget = 0,
                   isLeaderTransferTarget = False, pendingConfigChange = False,
                   readIndex = newReadIndex, readyToRead = [], checkQuorum = CheckQuorum' c,
                   tickCount = 0, electionTick = 0, heartbeatTick = 0,
                   heartbeatTimeout = HeartbeatRTT c, electionTimeout = ElectionRTT c,
                   randomizedElectionTimeout = 0, matched = [],
                   hasNotAppliedConfigChange = None, randSource = rnd,
                   maxEntrySize = MaxEntryBytes c, maxEntriesToApplySize = applyLimit\<rparr>;
          let r1 = r\<lparr>remotes := foldl (\<lambda>rs p. AList.update p (newRemote 0 1) rs) []
                                   (mbAddresses (dbMembership db))\<rparr>;
          let r2 = r1\<lparr>observers := foldl (\<lambda>rs p. AList.update p (newRemote 0 1) rs) []
                                      (mbObservers (dbMembership db))\<rparr>;
          let r3 = resetMatchValueArray r2;
          r4 \<leftarrow> (if \<not> IsEmptyState (dbState db) then loadState r3 (dbState db) else Some r3);
          if IsObserver c then becomeObserver (r4\<lparr>state := observer\<rparr>) (term r4) NoLeader
          else becomeFollower r4 (term r4) NoLeader
        })"

subsection \<open>Example nodes and messages\<close>

text \<open>Concrete inputs at which the theorems below are instantiated. \<open>exNode\<close> is node 1 of a
  cluster with the voters 1, 2, 3 and the observer 4: a follower of leader 2 at term 2 whose log
  holds the entries (1,1) and (2,2), the first of them committed and applied.\<close>

definition exLog :: entryLog where
  "exLog = \<lparr>markerIndex = 0, markerTerm = 0,
     ents = [\<lparr>eType = ApplicationEntry, eTerm = 1, eIndex = 1, eCmd = []\<rparr>,
             \<lparr>eType = ApplicationEntry, eTerm = 2, eIndex = 2, eCmd = []\<rparr>],
     committed = 1, logSnapshot = emptySnapshot\<rparr>"

definition exNode :: raft where
  "exNode = \<lparr>applied = 1, nodeID = 1, clusterID = 7, term = 2, vote = 0, log = exLog,
     remotes = [(1, newRemote 2 3), (2, newRemote 1 2), (3, newRemote 0 1)],
     observers = [(4, newRemote 0 3)], state = follower, votes = [], msgs = [],
     leaderID = 2, leaderTransferTarget = 0, isLeaderTransferTarget = False,
     pendingConfigChange = False, readIndex = [], readyToRead = [], checkQuorum = True,
     tickCount = 0, electionTick = 3, heartbeatTick = 0, heartbeatTimeout = 1,
     electionTimeout = 10, randomizedElectionTimeout = 15, matched = [0, 0, 0],
     hasNotAppliedConfigChange = None, randSource = sconst 0, maxEntrySize = 1024,
     maxEntriesToApplySize = 1024\<rparr>"

text \<open>A RequestVote of candidate 3 for the term \<open>t\<close>, its log ending at (2,2).\<close>

definition exVote :: "u64 \<Rightarrow> message" where
  "exVote t = emptyMessage\<lparr>mType := RequestVote, mFrom := 3, mTo := 1, mTerm := t,
     mLogIndex := 2, mLogTerm := 2\<rparr>"

text \<open>A proposal of one entry, made at node 1.\<close>

definition exPropose :: message where
  "exPropose = emptyMessage\<lparr>mType := Propose, mFrom := 1,
     mEntries := [\<lparr>eType = ApplicationEntry, eTerm = 0, eIndex = 0, eCmd = [1, 2]\<rparr>]\<rparr>"


definition exSingle :: raft where
  "exSingle = exNode\<lparr>state := leader, leaderID := 1, remotes := [(1, newRemote 2 3)],
     observers := [], matched := [0]\<rparr>"

text \<open>The local message by which \<^verbatim>\<open>leaderTick\<close> asks for a heartbeat broadcast.\<close>

definition exBeat :: message where
  "exBeat = emptyMessage\<lparr>mType := LeaderHeartbeat, mFrom := 1\<rparr>"


text \<open>The local message by which \<^verbatim>\<open>nonLeaderTick\<close> starts an election at node 1.\<close>

definition exElection :: message where
  "exElection = emptyMessage\<lparr>mType := Election, mFrom := 1\<rparr>"

text \<open>The single-node scenario: the configuration with node id 1, election RTT 10 and heartbeat
  RTT 1 (the cluster id, check-quorum and the entry size limit are left open), a log DB with no
  persisted state, an empty log and the one voter 1, and \<open>exFresh\<close>, the node \<^verbatim>\<open>newRaft\<close>
  builds from them when the random source is the stream \<open>s\<close>.\<close>

definition exDB :: logdb where
  "exDB = \<lparr>dbState = emptyState,
            dbMembership = \<lparr>mbAddresses = [1], mbObservers = []\<rparr>,
            dbLog = newEntryLog\<rparr>"

definition exConfig :: "u64 \<Rightarrow> bool \<Rightarrow> u64 \<Rightarrow> config" where
  "exConfig cid cq mb = \<lparr>ClusterID = cid, NodeID = 1, ElectionRTT = 10, HeartbeatRTT = 1,
     CheckQuorum' = cq, IsObserver = False, MaxEntryBytes = mb\<rparr>"

definition exFresh :: "u64 \<Rightarrow> bool \<Rightarrow> u64 \<Rightarrow> u64 stream \<Rightarrow> u64 \<Rightarrow> raft" where
  "exFresh cid cq mb s lim =
     \<lparr>applied = 0, nodeID = 1, clusterID = cid, term = 0, vote = 0, log = newEntryLog,
      remotes = [(1, newRemote 0 1)], observers = [], state = follower, votes = [], msgs = [],
      leaderID = NoLeader, leaderTransferTarget = 0, isLeaderTransferTarget = False,
      pendingConfigChange = False, readIndex = [], readyToRead = [], checkQuorum = cq,
      tickCount = 0, electionTick = 0, heartbeatTick = 0, heartbeatTimeout = 1,
      electionTimeout = 10, randomizedElectionTimeout = 10 + shd s mod 10, matched = [0],
      hasNotAppliedConfigChange = None, randSource = stl s, maxEntrySize = mb,
      maxEntriesToApplySize = lim\<rparr>"

text \<open>\<open>exSingle\<close> as a follower whose term is the largest \<^verbatim>\<open>uint64\<close>.\<close>

definition exMaxTerm :: raft where
  "exMaxTerm = exSingle\<lparr>state := follower, term := 18446744073709551615\<rparr>"

subsection \<open>Vocabulary of the properties\<close>

text \<open>The three fields the election rules are about, read together.\<close>

definition tv :: "raft \<Rightarrow> u64 \<times> u64 \<times> u64" where
  "tv r = (term r, vote r, nodeID r)"

named_theorems tv_keep


section \<open>Properties\<close>

subsection \<open>Auxiliary facts\<close>

lemma send_plain:
  "mType m \<noteq> RequestVote \<Longrightarrow> mTerm m = 0 \<Longrightarrow>
   send r m = Some (r\<lparr>msgs := msgs r @ [(if isRequestMessage (mType m) then m\<lparr>mFrom := nodeID r\<rparr>
                                          else m\<lparr>mFrom := nodeID r, mTerm := term r\<rparr>)]\<rparr>)"
  by (simp add: send_def finalizeMessageTerm_def)

lemma handleNodeRequestVote_eq:
  "handleNodeRequestVote r m =
     (let granted = ((vote r = NoNode \<or> vote r = mFrom m \<or> term r < mTerm m)
                      \<and> upToDate (log r) (mLogIndex m) (mLogTerm m))
      in Some (r\<lparr>electionTick := (if granted then 0 else electionTick r),
                 vote := (if granted then mFrom m else vote r),
                 msgs := msgs r @ [emptyMessage\<lparr>mTo := mFrom m, mType := RequestVoteResp,
                                     mFrom := nodeID r, mTerm := term r,
                                     mReject := \<not> granted\<rparr>]\<rparr>))"
  by (simp add: handleNodeRequestVote_def canGrantVote_def send_plain emptyMessage_def
        isRequestMessage_def Let_def)

lemma reset_Some:
  "reset r t = Some r' \<Longrightarrow> term r' = t \<and> state r' = state r \<and> msgs r' = msgs r
     \<and> vote r' = (if term r = t then vote r else NoLeader) \<and> nodeID r' = nodeID r"
  by (auto simp: reset_def setRandomizedElectionTimeout_def setLeaderID_def Let_def
        resetMatchValueArray_def resetObservers_def resetRemotes_def abortLeaderTransfer_def
        clearPendingConfigChange_def split: if_splits)

lemma defaultHandle_RequestVote:
  "mType m = RequestVote \<Longrightarrow>
   defaultHandle r m = (if state r = observer then Some r else handleNodeRequestVote r m)"
  by (cases "state r") (simp_all add: defaultHandle.simps)



subsection \<open>Leader stickiness\<close>



subsection \<open>Granting a vote\<close>

text \<open>
  C5. \<^verbatim>\<open>handleNodeRequestVote\<close>, in whatever role the node is, grants the vote if and only if
  (the recorded vote is none, or is the sender, or the term of the message is above the node's
  term) and the log of the candidate is up to date by \<open>upToDate\<close>. Granting sets the vote to the
  sender and the election tick to 0; rejecting leaves both as they were; either way exactly one
  RequestVoteResp, carrying the node's term, is appended for the sender and nothing else
  changes. The dispatcher runs this handler for a RequestVote in every role but that of an
  observer, which has no handler for it.
\<close>

theorem handleNodeRequestVote_grant_iff:
  "(let granted = ((vote r = NoNode \<or> vote r = mFrom m \<or> term r < mTerm m)
                     \<and> upToDate (log r) (mLogIndex m) (mLogTerm m))
    in handleNodeRequestVote r m =
         Some (r\<lparr>electionTick := (if granted then 0 else electionTick r),
                 vote := (if granted then mFrom m else vote r),
                 msgs := msgs r @ [emptyMessage\<lparr>mTo := mFrom m, mType := RequestVoteResp,
                                     mFrom := nodeID r, mTerm := term r,
                                     mReject := \<not> granted\<rparr>]\<rparr>))
   \<and> (mType m = RequestVote \<longrightarrow> state r \<noteq> observer \<longrightarrow>
        defaultHandle r m = handleNodeRequestVote r m)"
  using handleNodeRequestVote_eq [of r m] by (simp add: defaultHandle_RequestVote)

text \<open>\<open>exNode\<close> has not voted in term 2 and its log ends at (2,2), as the candidate's does: it
  grants.\<close>

theorem handleNodeRequestVote_grant_iff_witness:
  "handleNodeRequestVote exNode (exVote 2) =
     Some (exNode\<lparr>electionTick := 0, vote := 3,
             msgs := [emptyMessage\<lparr>mTo := 3, mType := RequestVoteResp, mFrom := 1, mTerm := 2,
                        mReject := False\<rparr>]\<rparr>)
   \<and> defaultHandle exNode (exVote 2) = handleNodeRequestVote exNode (exVote 2)"
  using handleNodeRequestVote_grant_iff [of exNode "exVote 2"]
  by (simp add: exVote_def exNode_def exLog_def emptyMessage_def Let_def upToDate_def
        lastTerm_def lastIndex_def term_log_def)

subsection \<open>Proposals the leader drops\<close>

lemma Handle_same_term:
  "mTerm m = 0 \<or> mTerm m = term r \<Longrightarrow> Handle r m = defaultHandle r m"
  by (auto simp: Handle.simps onMessageTermNotMatched_def doubleCheckTermMatched_def)

text \<open>
  C10. A leader that is neither a voter nor an observer any more, or that has a leader transfer
  in progress, drops a Propose message: \<^verbatim>\<open>handleLeaderPropose\<close> returns the state as it was
  (nothing appended, nothing sent), and so does \<^verbatim>\<open>Handle\<close> for a proposal that carries no
  term or the leader's term.
\<close>

theorem handleLeaderPropose_dropped:
  assumes "state r = leader"
    and "(nodeID r \<notin> fst ` set (remotes r) \<and> nodeID r \<notin> fst ` set (observers r))
         \<or> leaderTransferTarget r \<noteq> NoNode"
  shows "handleLeaderPropose r m = Some r
         \<and> (mType m = Propose \<and> (mTerm m = 0 \<or> mTerm m = term r) \<longrightarrow> Handle r m = Some r)"
proof -
  have "selfRemoved r \<or> leaderTransfering r"
    using assms by (auto simp: selfRemoved_def leaderTransfering_def map_of_eq_None_iff)
  then have h: "handleLeaderPropose r m = Some r"
    by (auto simp: handleLeaderPropose_def)
  moreover have "Handle r m = Some r" if "mType m = Propose" "mTerm m = 0 \<or> mTerm m = term r"
    using that h assms(1) by (simp add: Handle_same_term defaultHandle.simps)
  ultimately show ?thesis by blast
qed

text \<open>\<open>exNode\<close> as a leader that is transferring leadership to node 2.\<close>

theorem handleLeaderPropose_dropped_witness:
  "state (exNode\<lparr>state := leader, leaderTransferTarget := 2\<rparr>) = leader
   \<and> leaderTransferTarget (exNode\<lparr>state := leader, leaderTransferTarget := 2\<rparr>) \<noteq> NoNode
   \<and> handleLeaderPropose (exNode\<lparr>state := leader, leaderTransferTarget := 2\<rparr>) exPropose
       = Some (exNode\<lparr>state := leader, leaderTransferTarget := 2\<rparr>)
   \<and> Handle (exNode\<lparr>state := leader, leaderTransferTarget := 2\<rparr>) exPropose
       = Some (exNode\<lparr>state := leader, leaderTransferTarget := 2\<rparr>)"
  using handleLeaderPropose_dropped [of "exNode\<lparr>state := leader, leaderTransferTarget := 2\<rparr>" exPropose]
  by (simp add: exPropose_def emptyMessage_def)

subsection \<open>ReadIndex before the first commit of the term\<close>





subsection \<open>Heartbeats\<close>

lemma sendHeartbeatMessage_eq:
  "sendHeartbeatMessage r to ctx toObserver =
     (case map_of (if toObserver then observers r else remotes r) to of
        None \<Rightarrow> None
      | Some rp \<Rightarrow>
          Some (r\<lparr>msgs := msgs r @ [emptyMessage\<lparr>mTo := to, mType := Heartbeat,
                    mFrom := nodeID r, mTerm := term r,
                    mCommit := min (match rp) (committed (log r)),
                    mHint := ctxLow ctx, mHintHigh := ctxHigh ctx\<rparr>]\<rparr>))"
  by (auto simp: sendHeartbeatMessage_def send_plain emptyMessage_def isRequestMessage_def
        split: option.splits)

lemma forEach_heartbeat_voters:
  assumes "set ks \<subseteq> fst ` set (remotes r)"
  shows "forEach (\<lambda>id r. if id \<noteq> nodeID r then sendHeartbeatMessage r id ctx False else Some r) ks r =
     Some (r\<lparr>msgs := msgs r @
             map (\<lambda>id. emptyMessage\<lparr>mTo := id, mType := Heartbeat, mFrom := nodeID r,
                          mTerm := term r,
                          mCommit := min (match (the (map_of (remotes r) id))) (committed (log r)),
                          mHint := ctxLow ctx, mHintHigh := ctxHigh ctx\<rparr>)
               (filter (\<lambda>id. id \<noteq> nodeID r) ks)\<rparr>)"
  using assms
proof (induction ks arbitrary: r)
  case Nil
  then show ?case by simp
next
  case (Cons k ks)
  from Cons.prems obtain rp where rp: "map_of (remotes r) k = Some rp"
    by (cases "map_of (remotes r) k") (auto simp: map_of_eq_None_iff)
  show ?case
  proof (cases "k = nodeID r")
    case True
    with Cons show ?thesis by simp
  next
    case False
    let ?r1 = "r\<lparr>msgs := msgs r @ [emptyMessage\<lparr>mTo := k, mType := Heartbeat,
                    mFrom := nodeID r, mTerm := term r,
                    mCommit := min (match rp) (committed (log r)),
                    mHint := ctxLow ctx, mHintHigh := ctxHigh ctx\<rparr>]\<rparr>"
    have "set ks \<subseteq> fst ` set (remotes ?r1)" using Cons.prems by simp
    from Cons.IH[OF this] False rp show ?thesis
      by (simp add: sendHeartbeatMessage_eq)
  qed
qed

lemma forEach_heartbeat_observers:
  assumes "set ks \<subseteq> fst ` set (observers r)"
  shows "forEach (\<lambda>id r. sendHeartbeatMessage r id zeroCtx True) ks r =
     Some (r\<lparr>msgs := msgs r @
             map (\<lambda>id. emptyMessage\<lparr>mTo := id, mType := Heartbeat, mFrom := nodeID r,
                          mTerm := term r,
                          mCommit := min (match (the (map_of (observers r) id))) (committed (log r)),
                          mHint := 0, mHintHigh := 0\<rparr>) ks\<rparr>)"
  using assms
proof (induction ks arbitrary: r)
  case Nil
  then show ?case by simp
next
  case (Cons k ks)
  from Cons.prems obtain rp where rp: "map_of (observers r) k = Some rp"
    by (cases "map_of (observers r) k") (auto simp: map_of_eq_None_iff)
  let ?r1 = "r\<lparr>msgs := msgs r @ [emptyMessage\<lparr>mTo := k, mType := Heartbeat,
                  mFrom := nodeID r, mTerm := term r,
                  mCommit := min (match rp) (committed (log r)),
                  mHint := 0, mHintHigh := 0\<rparr>]\<rparr>"
  have "set ks \<subseteq> fst ` set (observers ?r1)" using Cons.prems by simp
  from Cons.IH[OF this] rp show ?case
    by (simp add: sendHeartbeatMessage_eq zeroCtx_def)
qed

text \<open>
  C7. Every Heartbeat the leader sends carries as commit the smaller of the match of the peer it
  goes to and the leader's committed index. A heartbeat broadcast appends one Heartbeat for
  every voter other than the node itself and, exactly when the context it carries is the zero
  context, one for every observer; nothing else changes. The leader's LeaderHeartbeat handler
  is that broadcast, with the context of the pending read-index request if there is one and the
  zero context otherwise.
\<close>

theorem heartbeat_commit_and_recipients:
  "(let hb = (\<lambda>c to rp. emptyMessage\<lparr>mTo := to, mType := Heartbeat, mFrom := nodeID r,
                 mTerm := term r, mCommit := min (match rp) (committed (log r)),
                 mHint := ctxLow c, mHintHigh := ctxHigh c\<rparr>)
    in sendHeartbeatMessage r to ctx toObserver =
         (case map_of (if toObserver then observers r else remotes r) to of
            None \<Rightarrow> None
          | Some rp \<Rightarrow> Some (r\<lparr>msgs := msgs r @ [hb ctx to rp]\<rparr>))
       \<and> broadcastHeartbeatMessageWithHint r ctx =
           Some (r\<lparr>msgs := msgs r
                   @ map (\<lambda>id. hb ctx id (the (map_of (remotes r) id)))
                       (filter (\<lambda>id. id \<noteq> nodeID r) (map fst (remotes r)))
                   @ (if ctx = zeroCtx
                      then map (\<lambda>id. hb zeroCtx id (the (map_of (observers r) id)))
                             (map fst (observers r))
                      else [])\<rparr>)
       \<and> handleLeaderLeaderHeartbeat r m =
           broadcastHeartbeatMessageWithHint r
             (if hasPendingRequest (readIndex r) then peepCtx (readIndex r) else zeroCtx)
       \<and> (state r = leader \<and> mType m = LeaderHeartbeat \<and> mTerm m = 0 \<longrightarrow>
            Handle r m = handleLeaderLeaderHeartbeat r m))"
proof -
  have v: "set (map fst (remotes r)) \<subseteq> fst ` set (remotes r)" by simp
  let ?r1 = "r\<lparr>msgs := msgs r @
             map (\<lambda>id. emptyMessage\<lparr>mTo := id, mType := Heartbeat, mFrom := nodeID r,
                          mTerm := term r,
                          mCommit := min (match (the (map_of (remotes r) id))) (committed (log r)),
                          mHint := ctxLow ctx, mHintHigh := ctxHigh ctx\<rparr>)
               (filter (\<lambda>id. id \<noteq> nodeID r) (map fst (remotes r)))\<rparr>"
  have o: "set (map fst (observers ?r1)) \<subseteq> fst ` set (observers ?r1)" by simp
  have b: "broadcastHeartbeatMessageWithHint r ctx =
      (if ctx = zeroCtx
       then forEach (\<lambda>id r. sendHeartbeatMessage r id zeroCtx True) (map fst (observers ?r1)) ?r1
       else Some ?r1)"
    unfolding broadcastHeartbeatMessageWithHint_def forEach_heartbeat_voters[OF v] by simp
  have h: "Handle r m = handleLeaderLeaderHeartbeat r m"
    if "state r = leader \<and> mType m = LeaderHeartbeat \<and> mTerm m = 0"
    using that by (simp add: Handle_same_term defaultHandle.simps)
  show ?thesis
    unfolding Let_def b forEach_heartbeat_observers[OF o]
    using h
    by (simp add: sendHeartbeatMessage_eq handleLeaderLeaderHeartbeat_def
          broadcastHeartbeatMessage_def zeroCtx_def)
qed

text \<open>\<open>exNode\<close> as leader, with committed index 1 and the matches 1 of voter 2, 0 of voter 3
  and 0 of observer 4.\<close>

theorem heartbeat_commit_and_recipients_witness:
  "Handle (exNode\<lparr>state := leader\<rparr>) exBeat =
     Some (exNode\<lparr>state := leader,
             msgs := [emptyMessage\<lparr>mTo := 2, mType := Heartbeat, mFrom := 1, mTerm := 2, mCommit := 1\<rparr>,
                      emptyMessage\<lparr>mTo := 3, mType := Heartbeat, mFrom := 1, mTerm := 2, mCommit := 0\<rparr>,
                      emptyMessage\<lparr>mTo := 4, mType := Heartbeat, mFrom := 1, mTerm := 2, mCommit := 0\<rparr>]\<rparr>)"
  using heartbeat_commit_and_recipients [of "exNode\<lparr>state := leader\<rparr>" 0 zeroCtx False exBeat]
  by (simp add: exNode_def exLog_def exBeat_def emptyMessage_def Let_def newRemote_def
        hasPendingRequest_def zeroCtx_def)

subsection \<open>The commit rule\<close>








subsection \<open>Installing a snapshot\<close>




subsection \<open>What the functions do to term, vote and node id\<close>

lemma tv_simps [simp]:
  "tv (r\<lparr>msgs := a\<rparr>) = tv r" "tv (r\<lparr>log := b\<rparr>) = tv r" "tv (r\<lparr>remotes := c\<rparr>) = tv r"
  "tv (r\<lparr>observers := d\<rparr>) = tv r" "tv (r\<lparr>matched := e\<rparr>) = tv r"
  "tv (r\<lparr>readIndex := f\<rparr>) = tv r" "tv (r\<lparr>readyToRead := g\<rparr>) = tv r"
  "tv (r\<lparr>electionTick := h\<rparr>) = tv r" "tv (r\<lparr>heartbeatTick := i\<rparr>) = tv r"
  "tv (r\<lparr>tickCount := j\<rparr>) = tv r" "tv (r\<lparr>leaderID := k\<rparr>) = tv r"
  "tv (r\<lparr>state := l\<rparr>) = tv r" "tv (r\<lparr>votes := m\<rparr>) = tv r"
  "tv (r\<lparr>leaderTransferTarget := n\<rparr>) = tv r" "tv (r\<lparr>isLeaderTransferTarget := p\<rparr>) = tv r"
  "tv (r\<lparr>pendingConfigChange := q\<rparr>) = tv r" "tv (r\<lparr>randSource := s\<rparr>) = tv r"
  "tv (r\<lparr>randomizedElectionTimeout := t\<rparr>) = tv r"
  by (simp_all add: tv_def)

lemma tv_send: "send r m = Some r' \<Longrightarrow> tv r' = tv r"
  by (auto simp: send_def split: bind_splits)

lemma tv_updateRemote [simp]: "tv (updateRemote r to f) = tv r"
  by (simp add: updateRemote_def split: option.splits)

lemma tv_forEach:
  assumes "\<And>x s s'. f x s = Some s' \<Longrightarrow> tv s' = tv s"
  shows "forEach f xs s = Some s' \<Longrightarrow> tv s' = tv s"
proof (induction xs arbitrary: s)
  case Nil
  then show ?case by simp
next
  case (Cons x xs)
  then obtain s1 where "f x s = Some s1" "forEach f xs s1 = Some s'"
    by (auto split: bind_splits)
  with Cons.IH assms show ?case by fastforce
qed

lemma tv_sendReplicateMessage: "sendReplicateMessage r to = Some r' \<Longrightarrow> tv r' = tv r"
  by (auto simp: sendReplicateMessage_def split: option.splits if_splits prod.splits bind_splits
        dest!: tv_send)

lemma tv_broadcastReplicateMessage: "broadcastReplicateMessage r = Some r' \<Longrightarrow> tv r' = tv r"
  unfolding broadcastReplicateMessage_def
  by (auto split: bind_splits if_splits
        dest!: tv_forEach[rotated] dest: tv_sendReplicateMessage)

lemma tv_sendHeartbeatMessage: "sendHeartbeatMessage r to c b = Some r' \<Longrightarrow> tv r' = tv r"
  by (auto simp: sendHeartbeatMessage_def split: bind_splits dest!: tv_send)

lemma tv_broadcastHeartbeatMessageWithHint:
  assumes "broadcastHeartbeatMessageWithHint r c = Some r'"
  shows "tv r' = tv r"
proof -
  from assms obtain r1 where
    1: "forEach (\<lambda>id r. if id \<noteq> nodeID r then sendHeartbeatMessage r id c False else Some r)
          (map fst (remotes r)) r = Some r1"
    and 2: "(if c = zeroCtx
             then forEach (\<lambda>id r. sendHeartbeatMessage r id zeroCtx True) (map fst (observers r1)) r1
             else Some r1) = Some r'"
    by (auto simp: broadcastHeartbeatMessageWithHint_def split: bind_splits)
  have "tv r1 = tv r"
    by (rule tv_forEach[OF _ 1]) (auto split: if_splits dest: tv_sendHeartbeatMessage)
  moreover have "tv r' = tv r1"
  proof (cases "c = zeroCtx")
    case True
    with 2 have "forEach (\<lambda>id r. sendHeartbeatMessage r id zeroCtx True) (map fst (observers r1)) r1
                 = Some r'" by simp
    then show ?thesis by (rule tv_forEach[rotated]) (auto dest: tv_sendHeartbeatMessage)
  next
    case False
    with 2 show ?thesis by simp
  qed
  ultimately show ?thesis by simp
qed

lemma tv_broadcastHeartbeatMessage: "broadcastHeartbeatMessage r = Some r' \<Longrightarrow> tv r' = tv r"
  by (auto simp: broadcastHeartbeatMessage_def split: if_splits
        dest: tv_broadcastHeartbeatMessageWithHint)

lemma tv_sendTimeoutNowMessage: "sendTimeoutNowMessage r t = Some r' \<Longrightarrow> tv r' = tv r"
  by (auto simp: sendTimeoutNowMessage_def dest: tv_send)

lemma tv_sortMatchValues [simp]: "tv (sortMatchValues r) = tv r"
  by (simp add: sortMatchValues_def)

lemma tv_resetMatchValueArray [simp]: "tv (resetMatchValueArray r) = tv r"
  by (simp add: resetMatchValueArray_def)

lemma tv_tryCommit: "tryCommit r = Some (b, r') \<Longrightarrow> tv r' = tv r"
  by (auto simp: tryCommit_def Let_def split: if_splits prod.splits)

lemma tv_appendEntries: "appendEntries r es = Some r' \<Longrightarrow> tv r' = tv r"
  by (auto simp: appendEntries_def Let_def split: option.splits if_splits dest!: tv_tryCommit)

lemma reset_tv:
  "reset r t = Some r' \<Longrightarrow>
   tv r' = (t, (if term r = t then vote r else NoLeader), nodeID r) \<and> state r' = state r"
  by (auto simp: tv_def dest!: reset_Some)

lemma tv_becomeFollower_same: "becomeFollower r (term r) lid = Some r' \<Longrightarrow> tv r' = tv r"
  by (auto simp: becomeFollower_def setLeaderID_def tv_def split: bind_splits dest!: reset_Some)

lemma tv_preLeader: "preLeaderPromotionHandleConfigChange r = Some r' \<Longrightarrow> tv r' = tv r"
  by (auto simp: preLeaderPromotionHandleConfigChange_def setPendingConfigChange_def
        split: bind_splits if_splits)

lemma reset_same: "reset r (term r) = Some r' \<Longrightarrow> tv r' = tv r"
  by (auto simp: tv_def dest!: reset_Some)

lemma tv_becomeLeader: "becomeLeader r = Some r' \<Longrightarrow> tv r' = tv r"
  by (auto simp: becomeLeader_def setLeaderID_def Let_def split: bind_splits if_splits
        dest!: reset_same[where r = "r\<lparr>state := leader\<rparr>", simplified] tv_preLeader tv_appendEntries)

lemma becomeCandidate_tv:
  "becomeCandidate r = Some r' \<Longrightarrow> tv r' = (term r + 1, nodeID r, nodeID r)"
  by (auto simp: becomeCandidate_def tv_def split: bind_splits if_splits dest!: reset_Some)

lemma tv_handleVoteResp [simp]: "tv (snd (handleVoteResp r f b)) = tv r"
  by (simp add: handleVoteResp_def Let_def split: option.splits)

lemma campaign_tv:
  assumes "campaign r = Some r'"
  shows "tv r' = (term r + 1, nodeID r, nodeID r)"
proof -
  from assms obtain r1 where 1: "becomeCandidate r = Some r1"
    by (auto simp: campaign_def split: bind_splits)
  let ?r2 = "snd (handleVoteResp r1 (nodeID r1) False)"
  have tv2: "tv ?r2 = (term r + 1, nodeID r, nodeID r)"
    using becomeCandidate_tv[OF 1] by simp
  show ?thesis
  proof (cases "isSingleNodeQuorum ?r2")
    case True
    with assms 1 have "becomeLeader ?r2 = Some r'"
      by (simp add: campaign_def Let_def)
    from tv_becomeLeader[OF this] tv2 show ?thesis by simp
  next
    case False
    let ?r3 = "if isLeaderTransferTarget ?r2 then ?r2\<lparr>isLeaderTransferTarget := False\<rparr> else ?r2"
    from False assms 1 have "forEach (\<lambda>k r. if k = nodeID r then Some r
                       else send r (emptyMessage\<lparr>mTerm := term r1, mTo := k, mType := RequestVote,
                              mLogIndex := lastIndex (log r), mLogTerm := lastTerm (log r),
                              mHint := (if isLeaderTransferTarget ?r2 then nodeID ?r2 else 0)\<rparr>))
               (map fst (remotes ?r3)) ?r3 = Some r'"
      by (simp add: campaign_def Let_def)
    then have "tv r' = tv ?r3"
      by (rule tv_forEach[rotated]) (auto split: if_splits dest: tv_send)
    with tv2 show ?thesis by simp
  qed
qed

lemma tv_leaderHasQuorum [simp]: "tv (snd (leaderHasQuorum r)) = tv r"
  by (simp add: leaderHasQuorum_def Let_def split: prod.splits)

lemma tv_restore: "restore r ss = Some (b, r') \<Longrightarrow> tv r' = tv r"
  by (auto simp: restore_def split: if_splits)

lemma tv_handleHeartbeatMessage: "handleHeartbeatMessage r m = Some r' \<Longrightarrow> tv r' = tv r"
  by (auto simp: handleHeartbeatMessage_def dest!: tv_send)

lemma tv_handleInstallSnapshotMessage:
  "handleInstallSnapshotMessage r m = Some r' \<Longrightarrow> tv r' = tv r"
  by (auto simp: handleInstallSnapshotMessage_def Let_def split: bind_splits if_splits
        dest!: tv_send tv_restore)

lemma tv_handleReplicateMessage: "handleReplicateMessage r m = Some r' \<Longrightarrow> tv r' = tv r"
  by (auto simp: handleReplicateMessage_def Let_def split: bind_splits if_splits dest!: tv_send)

lemma tv_handleCandidateHeartbeat [tv_keep]:
  "handleCandidateHeartbeat r m = Some r' \<Longrightarrow> tv r' = tv r"
  by (auto simp: handleCandidateHeartbeat_def split: bind_splits
        dest!: tv_becomeFollower_same tv_handleHeartbeatMessage)

lemma tv_handleCandidatePropose [tv_keep]:
  "handleCandidatePropose r m = Some r' \<Longrightarrow> tv r' = tv r"
  by (simp add: handleCandidatePropose_def)

lemma tv_handleCandidateReplicate [tv_keep]:
  "handleCandidateReplicate r m = Some r' \<Longrightarrow> tv r' = tv r"
  by (auto simp: handleCandidateReplicate_def split: bind_splits
        dest!: tv_becomeFollower_same tv_handleReplicateMessage)

lemma tv_handleCandidateInstallSnapshot [tv_keep]:
  "handleCandidateInstallSnapshot r m = Some r' \<Longrightarrow> tv r' = tv r"
  by (auto simp: handleCandidateInstallSnapshot_def split: bind_splits
        dest!: tv_becomeFollower_same tv_handleInstallSnapshotMessage)

lemma tv_handleCandidateRequestVoteResp [tv_keep]:
  assumes "handleCandidateRequestVoteResp r m = Some r'"
  shows "tv r' = tv r"
proof (cases "map_of (observers r) (mFrom m) \<noteq> None")
  case True
  with assms show ?thesis by (simp add: handleCandidateRequestVoteResp_def)
next
  case False
  obtain count r1 where hv: "handleVoteResp r (mFrom m) (mReject m) = (count, r1)"
    by (cases "handleVoteResp r (mFrom m) (mReject m)")
  have 1: "tv r1 = tv r" using tv_handleVoteResp[of r "mFrom m" "mReject m"] hv by simp
  have t: "term r1 = term r" using 1 by (simp add: tv_def)
  from assms False hv have e:
    "(if count = quorum r1 then becomeLeader r1 \<bind> broadcastReplicateMessage
      else if length (votes r1) - count = quorum r1 then becomeFollower r1 (term r1) NoLeader
      else Some r1) = Some r'"
    by (simp add: handleCandidateRequestVoteResp_def)
  show ?thesis
  proof (cases "count = quorum r1")
    case True
    with e obtain r2 where "becomeLeader r1 = Some r2" "broadcastReplicateMessage r2 = Some r'"
      by (simp split: bind_splits)
    with tv_becomeLeader[of r1 r2] tv_broadcastReplicateMessage[of r2 r'] 1
    show ?thesis by simp
  next
    case nq: False
    show ?thesis
    proof (cases "length (votes r1) - count = quorum r1")
      case True
      with e nq have "becomeFollower r1 (term r1) NoLeader = Some r'" by simp
      from tv_becomeFollower_same[OF this] 1 show ?thesis by simp
    next
      case False
      with e nq have "r' = r1" by simp
      with 1 show ?thesis by simp
    qed
  qed
qed

lemma tv_handleFollowerPropose [tv_keep]:
  "handleFollowerPropose r m = Some r' \<Longrightarrow> tv r' = tv r"
  by (auto simp: handleFollowerPropose_def split: if_splits dest!: tv_send)

lemma tv_handleFollowerReplicate [tv_keep]:
  "handleFollowerReplicate r m = Some r' \<Longrightarrow> tv r' = tv r"
  by (auto simp: handleFollowerReplicate_def setLeaderID_def dest!: tv_handleReplicateMessage)

lemma tv_handleFollowerHeartbeat [tv_keep]:
  "handleFollowerHeartbeat r m = Some r' \<Longrightarrow> tv r' = tv r"
  by (auto simp: handleFollowerHeartbeat_def setLeaderID_def dest!: tv_handleHeartbeatMessage)

lemma tv_handleFollowerReadIndex [tv_keep]:
  "handleFollowerReadIndex r m = Some r' \<Longrightarrow> tv r' = tv r"
  by (auto simp: handleFollowerReadIndex_def split: if_splits dest!: tv_send)

lemma tv_handleFollowerLeaderTransfer [tv_keep]:
  "handleFollowerLeaderTransfer r m = Some r' \<Longrightarrow> tv r' = tv r"
  by (auto simp: handleFollowerLeaderTransfer_def split: if_splits dest!: tv_send)

lemma tv_handleFollowerReadIndexResp [tv_keep]:
  "handleFollowerReadIndexResp r m = Some r' \<Longrightarrow> tv r' = tv r"
  by (auto simp: handleFollowerReadIndexResp_def setLeaderID_def addReadyToRead_def)

lemma tv_handleFollowerInstallSnapshot [tv_keep]:
  "handleFollowerInstallSnapshot r m = Some r' \<Longrightarrow> tv r' = tv r"
  by (auto simp: handleFollowerInstallSnapshot_def setLeaderID_def
        dest!: tv_handleInstallSnapshotMessage)

lemma tv_handleObserverHeartbeat [tv_keep]:
  "handleObserverHeartbeat r m = Some r' \<Longrightarrow> tv r' = tv r"
  by (simp add: handleObserverHeartbeat_def tv_handleFollowerHeartbeat)

lemma tv_handleObserverReplicate [tv_keep]:
  "handleObserverReplicate r m = Some r' \<Longrightarrow> tv r' = tv r"
  by (simp add: handleObserverReplicate_def tv_handleFollowerReplicate)

lemma tv_handleObserverSnapshot [tv_keep]:
  "handleObserverSnapshot r m = Some r' \<Longrightarrow> tv r' = tv r"
  by (simp add: handleObserverSnapshot_def tv_handleFollowerInstallSnapshot)

lemma tv_handleObserverPropose [tv_keep]:
  "handleObserverPropose r m = Some r' \<Longrightarrow> tv r' = tv r"
  by (simp add: handleObserverPropose_def tv_handleFollowerPropose)

lemma tv_handleObserverReadIndex [tv_keep]:
  "handleObserverReadIndex r m = Some r' \<Longrightarrow> tv r' = tv r"
  by (simp add: handleObserverReadIndex_def tv_handleFollowerReadIndex)

lemma tv_handleObserverReadIndexResp [tv_keep]:
  "handleObserverReadIndexResp r m = Some r' \<Longrightarrow> tv r' = tv r"
  by (simp add: handleObserverReadIndexResp_def tv_handleFollowerReadIndexResp)

lemma tv_handleLeaderLeaderHeartbeat [tv_keep]:
  "handleLeaderLeaderHeartbeat r m = Some r' \<Longrightarrow> tv r' = tv r"
  by (simp add: handleLeaderLeaderHeartbeat_def tv_broadcastHeartbeatMessage)

lemma tv_handleLeaderCheckQuorum [tv_keep]:
  assumes "handleLeaderCheckQuorum r m = Some r'"
  shows "tv r' = tv r"
proof -
  obtain ok r1 where q: "leaderHasQuorum r = (ok, r1)"
    by (cases "leaderHasQuorum r")
  have 1: "tv r1 = tv r" using tv_leaderHasQuorum[of r] q by simp
  from assms q have "r' = r1 \<or> becomeFollower r1 (term r1) NoLeader = Some r'"
    by (auto simp: handleLeaderCheckQuorum_def split: if_splits)
  then show ?thesis using 1 tv_becomeFollower_same[of r1 NoLeader r'] by auto
qed

lemma tv_handleLeaderPropose [tv_keep]:
  "handleLeaderPropose r m = Some r' \<Longrightarrow> tv r' = tv r"
  by (auto simp: handleLeaderPropose_def split: if_splits prod.splits bind_splits
        dest!: tv_appendEntries tv_broadcastReplicateMessage)

lemma tv_handleLeaderReadIndex [tv_keep]:
  "handleLeaderReadIndex r m = Some r' \<Longrightarrow> tv r' = tv r"
  by (auto simp: handleLeaderReadIndex_def Let_def addReadyToRead_def
        split: if_splits bind_splits dest!: tv_send tv_broadcastHeartbeatMessageWithHint)

lemma tv_enterRetryState [simp]: "tv (enterRetryState r f) = tv r"
  by (simp add: enterRetryState_def)

lemma tv_handleLeaderReplicateResp:
  "handleLeaderReplicateResp r m = Some r' \<Longrightarrow> tv r' = tv r"
  by (auto simp: handleLeaderReplicateResp_def Let_def
        split: if_splits bind_splits prod.splits
        dest!: tv_tryCommit tv_broadcastReplicateMessage tv_sendReplicateMessage
               tv_sendTimeoutNowMessage)

lemma tv_handleReadIndexLeaderConfirmation:
  assumes "handleReadIndexLeaderConfirmation r m = Some r'"
  shows "tv r' = tv r"
proof -
  obtain ris q where c: "confirm \<lparr>ctxLow = mHint m, ctxHigh = mHintHigh m\<rparr> (mFrom m) (quorum r)
                          (readIndex r) = (ris, q)"
    by (cases "confirm \<lparr>ctxLow = mHint m, ctxHigh = mHintHigh m\<rparr> (mFrom m) (quorum r) (readIndex r)")
  with assms have "forEach (\<lambda>s r. if rsFrom s = NoNode \<or> rsFrom s = nodeID r
                         then Some (addReadyToRead r (rsIndex s) (rsCtx s))
                         else send r (emptyMessage\<lparr>mTo := rsFrom s, mType := ReadIndexResp,
                                mLogIndex := rsIndex s, mHint := mHint m,
                                mHintHigh := mHintHigh m\<rparr>))
           ris (r\<lparr>readIndex := q\<rparr>) = Some r'"
    by (simp add: handleReadIndexLeaderConfirmation_def Let_def)
  then have "tv r' = tv (r\<lparr>readIndex := q\<rparr>)"
    by (rule tv_forEach[rotated]) (auto simp: addReadyToRead_def split: if_splits dest: tv_send)
  then show ?thesis by simp
qed

lemma tv_handleLeaderHeartbeatResp:
  "handleLeaderHeartbeatResp r m = Some r' \<Longrightarrow> tv r' = tv r"
  by (auto simp: handleLeaderHeartbeatResp_def Let_def
        split: if_splits bind_splits
        dest!: tv_sendReplicateMessage tv_handleReadIndexLeaderConfirmation)

lemma tv_handleLeaderLeaderTransfer:
  "handleLeaderLeaderTransfer r m = Some r' \<Longrightarrow> tv r' = tv r"
  by (auto simp: handleLeaderLeaderTransfer_def Let_def
        split: if_splits bind_splits dest!: tv_sendTimeoutNowMessage)

lemma tv_handleLeaderSnapshotStatus:
  "handleLeaderSnapshotStatus r m = Some r' \<Longrightarrow> tv r' = tv r"
  by (auto simp: handleLeaderSnapshotStatus_def Let_def split: if_splits bind_splits)

lemma tv_handleLeaderUnreachable:
  "handleLeaderUnreachable r m = Some r' \<Longrightarrow> tv r' = tv r"
  by (auto simp: handleLeaderUnreachable_def)

lemma tv_lw [tv_keep]:
  "lw handleLeaderReplicateResp r m = Some r' \<Longrightarrow> tv r' = tv r"
  "lw handleLeaderHeartbeatResp r m = Some r' \<Longrightarrow> tv r' = tv r"
  "lw handleLeaderSnapshotStatus r m = Some r' \<Longrightarrow> tv r' = tv r"
  "lw handleLeaderUnreachable r m = Some r' \<Longrightarrow> tv r' = tv r"
  "lw handleLeaderLeaderTransfer r m = Some r' \<Longrightarrow> tv r' = tv r"
  by (auto simp: lw_def split: option.splits
        dest: tv_handleLeaderReplicateResp tv_handleLeaderHeartbeatResp
              tv_handleLeaderSnapshotStatus tv_handleLeaderUnreachable
              tv_handleLeaderLeaderTransfer)

lemma defaultHandle_keeps:
  assumes "mType m \<noteq> Election" and "mType m \<noteq> RequestVote" and "mType m \<noteq> TimeoutNow"
    and "defaultHandle r m = Some r'"
  shows "tv r' = tv r"
  using assms
  apply (cases "state r"; cases "mType m")
  apply (simp_all add: defaultHandle.simps)
  apply (auto dest: tv_keep)
  done

lemma handleNodeElection_tv:
  "handleNodeElection r m = Some r' \<Longrightarrow>
   tv r' = tv r \<or> tv r' = (term r + 1, nodeID r, nodeID r)"
  by (auto simp: handleNodeElection_def split: if_splits dest: campaign_tv)

lemma defaultHandle_Election:
  assumes "mType m = Election" and "defaultHandle r m = Some r'"
  shows "tv r' = tv r \<or> tv r' = (term r + 1, nodeID r, nodeID r)"
  using assms by (cases "state r") (auto simp: defaultHandle.simps dest: handleNodeElection_tv)

lemma defaultHandle_RequestVote_tv:
  assumes "mType m = RequestVote" and "defaultHandle r m = Some r'"
  shows "term r' = term r \<and> nodeID r' = nodeID r \<and> (vote r' = vote r \<or> vote r' = mFrom m)"
  using assms
  by (auto simp: defaultHandle_RequestVote handleNodeRequestVote_eq Let_def split: if_splits)

lemma nonLeaderTick_tv:
  assumes "nonLeaderTick r = Some r'"
  shows "tv r' = tv r \<or> tv r' = (term r + 1, nodeID r, nodeID r)"
proof -
  let ?r1 = "r\<lparr>electionTick := electionTick r + 1\<rparr>"
  let ?m = "emptyMessage\<lparr>mFrom := nodeID ?r1, mType := Election\<rparr>"
  from assms have "r' = ?r1 \<or> Handle (?r1\<lparr>electionTick := 0\<rparr>) ?m = Some r'"
    by (auto simp: nonLeaderTick.simps Let_def split: if_splits)
  then show ?thesis
  proof
    assume "r' = ?r1"
    then show ?thesis by simp
  next
    assume "Handle (?r1\<lparr>electionTick := 0\<rparr>) ?m = Some r'"
    then have "defaultHandle (?r1\<lparr>electionTick := 0\<rparr>) ?m = Some r'"
      by (simp add: Handle_same_term emptyMessage_def)
    from defaultHandle_Election[OF _ this] show ?thesis
      by (simp add: tv_def emptyMessage_def)
  qed
qed

lemma Handle_local_keeps:
  assumes "mTerm m = 0" and "mType m \<noteq> Election" and "mType m \<noteq> RequestVote"
    and "mType m \<noteq> TimeoutNow" and "Handle r m = Some r'"
  shows "tv r' = tv r"
  using assms defaultHandle_keeps[of m r r'] by (simp add: Handle_same_term)

lemma leaderTick_tv:
  assumes "leaderTick r = Some r'"
  shows "tv r' = tv r"
proof -
  let ?r1 = "r\<lparr>electionTick := electionTick r + 1\<rparr>"
  let ?r1a = "?r1\<lparr>electionTick := 0\<rparr>"
  from assms obtain r2 where
    2: "(if timeForCheckQuorum ?r1 then
           (if checkQuorum ?r1a
            then Handle ?r1a (emptyMessage\<lparr>mFrom := nodeID ?r1a, mType := CheckQuorum\<rparr>)
            else Some ?r1a)
         else Some ?r1) = Some r2"
    and 3: "(let r3 = (if timeToAbortLeaderTransfer ?r1 then abortLeaderTransfer r2 else r2);
                 r4 = r3\<lparr>heartbeatTick := heartbeatTick r3 + 1\<rparr>
             in if timeForHearbeat r4
                then Handle (r4\<lparr>heartbeatTick := 0\<rparr>)
                       (emptyMessage\<lparr>mFrom := nodeID r4, mType := LeaderHeartbeat\<rparr>)
                else Some r4) = Some r'"
    by (auto simp: leaderTick.simps Let_def split: if_splits bind_splits)
  have t2: "tv r2 = tv r"
  proof (cases "timeForCheckQuorum ?r1 \<and> checkQuorum ?r1a")
    case True
    with 2 have "Handle ?r1a (emptyMessage\<lparr>mFrom := nodeID ?r1a, mType := CheckQuorum\<rparr>) = Some r2"
      by simp
    then have "tv r2 = tv ?r1a"
      by (rule Handle_local_keeps[rotated 4]) (simp_all add: emptyMessage_def)
    then show ?thesis by simp
  next
    case False
    with 2 have "r2 = ?r1a \<or> r2 = ?r1" by (auto split: if_splits)
    then show ?thesis by auto
  qed
  let ?r3 = "if timeToAbortLeaderTransfer ?r1 then abortLeaderTransfer r2 else r2"
  let ?r4 = "?r3\<lparr>heartbeatTick := heartbeatTick ?r3 + 1\<rparr>"
  have t4: "tv ?r4 = tv r" using t2 by (simp add: abortLeaderTransfer_def)
  show ?thesis
  proof (cases "timeForHearbeat ?r4")
    case True
    with 3 have "Handle (?r4\<lparr>heartbeatTick := 0\<rparr>)
                   (emptyMessage\<lparr>mFrom := nodeID ?r4, mType := LeaderHeartbeat\<rparr>) = Some r'"
      by (simp add: Let_def)
    then have "tv r' = tv (?r4\<lparr>heartbeatTick := 0\<rparr>)"
      by (rule Handle_local_keeps[rotated 4]) (simp_all add: emptyMessage_def)
    with t4 show ?thesis by simp
  next
    case False
    with 3 have "r' = ?r4" by (simp add: Let_def)
    with t4 show ?thesis by simp
  qed
qed

lemma tick_tv:
  assumes "tick r = Some r'"
  shows "tv r' = tv r \<or> tv r' = (term r + 1, nodeID r, nodeID r)"
proof -
  let ?r1 = "r\<lparr>tickCount := tickCount r + 1\<rparr>"
  from assms have "leaderTick ?r1 = Some r' \<or> nonLeaderTick ?r1 = Some r'"
    by (auto simp: tick.simps Let_def split: if_splits)
  then show ?thesis
    using leaderTick_tv[of ?r1 r'] nonLeaderTick_tv[of ?r1 r'] by (auto simp: tv_def)
qed

lemma handleFollowerTimeoutNow_tv:
  assumes "handleFollowerTimeoutNow r m = Some r'"
  shows "tv r' = tv r \<or> tv r' = (term r + 1, nodeID r, nodeID r)"
proof -
  let ?r0 = "r\<lparr>electionTick := randomizedElectionTimeout r, isLeaderTransferTarget := True\<rparr>"
  from assms obtain r1 where 1: "tick ?r0 = Some r1"
    and 2: "r' = (if isLeaderTransferTarget r1 then r1\<lparr>isLeaderTransferTarget := False\<rparr> else r1)"
    by (auto simp: handleFollowerTimeoutNow.simps split: bind_splits)
  from 2 have "tv r' = tv r1" by simp
  with tick_tv[OF 1] show ?thesis by (simp add: tv_def)
qed

lemma defaultHandle_TimeoutNow:
  assumes "mType m = TimeoutNow" and "defaultHandle r m = Some r'"
  shows "tv r' = tv r \<or> tv r' = (term r + 1, nodeID r, nodeID r)"
  using assms
  by (cases "state r") (auto simp: defaultHandle.simps dest: handleFollowerTimeoutNow_tv)

lemma defaultHandle_tv:
  assumes "defaultHandle r m = Some r'"
  shows "nodeID r' = nodeID r
         \<and> ((term r' = term r \<and> (vote r' = vote r \<or> (mType m = RequestVote \<and> vote r' = mFrom m)))
            \<or> (term r' = term r + 1 \<and> vote r' = nodeID r))"
proof -
  consider "mType m = Election" | "mType m = RequestVote" | "mType m = TimeoutNow"
    | "mType m \<noteq> Election" "mType m \<noteq> RequestVote" "mType m \<noteq> TimeoutNow"
    by blast
  then show ?thesis
  proof cases
    case 1
    from defaultHandle_Election[OF this assms] show ?thesis by (auto simp: tv_def)
  next
    case 2
    from defaultHandle_RequestVote_tv[OF this assms] 2 show ?thesis by auto
  next
    case 3
    from defaultHandle_TimeoutNow[OF this assms] show ?thesis by (auto simp: tv_def)
  next
    case 4
    from defaultHandle_keeps[OF this assms] show ?thesis by (auto simp: tv_def)
  qed
qed

lemma onMessageTermNotMatched_tv:
  assumes "onMessageTermNotMatched r m = Some (ignore, r1)"
  shows "nodeID r1 = nodeID r
         \<and> ((term r1 = term r \<and> vote r1 = vote r)
            \<or> (term r < mTerm m \<and> term r1 = mTerm m \<and> vote r1 = NoNode))"
proof -
  let ?lid = "if isLeaderMessage (mType m) then mFrom m else NoLeader"
  from assms consider "r1 = r"
    | "term r < mTerm m" "(if isObserver r then becomeObserver r (mTerm m) ?lid
                           else becomeFollower r (mTerm m) ?lid) = Some r1"
    | "send r (emptyMessage\<lparr>mTo := mFrom m, mType := NoOP\<rparr>) = Some r1"
    unfolding onMessageTermNotMatched_def Let_def
    by (simp split: if_splits)
  then show ?thesis
  proof cases
    case 1
    then show ?thesis by simp
  next
    case 2
    from 2(2) have "tv r1 = (mTerm m, NoNode, nodeID r)"
      using 2(1)
      by (auto simp: isObserver_def becomeObserver_def becomeFollower_def setLeaderID_def tv_def
            split: if_splits bind_splits dest!: reset_Some)
    with 2(1) show ?thesis by (simp add: tv_def)
  next
    case 3
    from tv_send[OF this] show ?thesis by (simp add: tv_def)
  qed
qed

subsection \<open>Campaigning\<close>

lemma word_succ_gt: "(x::u64) + 1 \<noteq> 0 \<Longrightarrow> x < x + 1"
  using inc_less_eq_self_iff_eq[of x] by (auto simp: not_le)

lemma word_succ_neq: "(x::u64) + 1 \<noteq> x"
  by simp














subsection \<open>Refusing to campaign\<close>




subsection \<open>Term and vote across a step\<close>

text \<open>
  C6, as amended. One \<^verbatim>\<open>Handle\<close> or one \<^verbatim>\<open>tick\<close> that returns never lowers the term, as long
  as adding 1 to the node's term and to the message's term does not wrap around to 0. When the
  step raises the term, the vote recorded after it is none, or the node's own id (the step
  started a campaign), or the sender of the RequestVote the step has granted; after a tick that
  raised the term it is the node's own id. The node id never changes.
\<close>

theorem step_term_and_vote:
  "(\<forall>r'. Handle r m = Some r' \<longrightarrow>
       nodeID r' = nodeID r
     \<and> (term r + 1 \<noteq> 0 \<and> mTerm m + 1 \<noteq> 0 \<longrightarrow> term r \<le> term r')
     \<and> (term r < term r' \<longrightarrow>
          vote r' = NoNode \<or> vote r' = nodeID r \<or> (mType m = RequestVote \<and> vote r' = mFrom m)))
   \<and> (\<forall>r'. tick r = Some r' \<longrightarrow>
       nodeID r' = nodeID r
     \<and> (term r + 1 \<noteq> 0 \<longrightarrow> term r \<le> term r')
     \<and> (term r < term r' \<longrightarrow> vote r' = nodeID r))"
proof (intro conjI allI impI)
  fix r'
  assume h: "Handle r m = Some r'"
  then obtain ignore r1 where o: "onMessageTermNotMatched r m = Some (ignore, r1)"
    and c: "(if \<not> ignore then doubleCheckTermMatched r1 (mTerm m) \<bind> (\<lambda>_. defaultHandle r1 m)
             else Some r1) = Some r'"
    by (auto simp: Handle.simps split: bind_splits)
  from onMessageTermNotMatched_tv[OF o]
  have n1: "nodeID r1 = nodeID r"
    and t1: "(term r1 = term r \<and> vote r1 = vote r)
             \<or> (term r < mTerm m \<and> term r1 = mTerm m \<and> vote r1 = NoNode)"
    by simp_all
  have d: "nodeID r' = nodeID r1
         \<and> ((term r' = term r1 \<and> (vote r' = vote r1 \<or> (mType m = RequestVote \<and> vote r' = mFrom m)))
            \<or> (term r' = term r1 + 1 \<and> vote r' = nodeID r1))"
  proof (cases ignore)
    case True
    with c show ?thesis by simp
  next
    case False
    with c have "defaultHandle r1 m = Some r'" by (simp split: bind_splits)
    from defaultHandle_tv[OF this] show ?thesis .
  qed
  show "nodeID r' = nodeID r" using d n1 by simp
  show "term r \<le> term r'" if "term r + 1 \<noteq> 0 \<and> mTerm m + 1 \<noteq> 0"
    using d t1 that word_succ_gt[of "term r"] word_succ_gt[of "mTerm m"] by auto
  show "vote r' = NoNode \<or> vote r' = nodeID r \<or> (mType m = RequestVote \<and> vote r' = mFrom m)"
    if "term r < term r'"
    using d t1 n1 that by auto
next
  fix r'
  assume t: "tick r = Some r'"
  from tick_tv[OF t]
  have d: "tv r' = tv r \<or> tv r' = (term r + 1, nodeID r, nodeID r)" .
  show "nodeID r' = nodeID r" using d by (auto simp: tv_def)
  show "term r \<le> term r'" if "term r + 1 \<noteq> 0"
    using d that word_succ_gt[of "term r"] by (auto simp: tv_def)
  show "vote r' = nodeID r" if "term r < term r'"
    using d that by (auto simp: tv_def)
qed

subsection \<open>Evaluating a step\<close>

text \<open>The definitions a step of a concrete node unfolds to.\<close>

lemmas eval_defs = emptyMessage_def emptySnapshot_def
  emptyMembership_def newRemote_def newEntryLog_def
  tick.simps nonLeaderTick.simps leaderTick.simps Handle.simps defaultHandle.simps
  handleFollowerTimeoutNow.simps isObserver_def selfRemoved_def timeForElection_def
  onMessageTermNotMatched_def doubleCheckTermMatched_def handleNodeElection_def
  hasConfigChangeToApply_def getApplied_def campaign_def becomeCandidate_def reset_def
  setLeaderID_def setRandomizedElectionTimeout_def newReadIndex_def clearPendingConfigChange_def
  abortLeaderTransfer_def resetRemotes_def resetObservers_def resetMatchValueArray_def
  handleVoteResp_def isSingleNodeQuorum_def quorum_def send_def finalizeMessageTerm_def
  isRequestMessage_def lastIndex_def lastTerm_def term_log_def Let_def
  becomeLeader_def becomeFollower_def becomeObserver_def
  preLeaderPromotionHandleConfigChange_def getPendingConfigChangeCount_def
  setPendingConfigChange_def appendEntries_def append_log_def tryUpdate_def waitToRetry_def
  tryCommit_def sortMatchValues_def tryCommit_log_def commitTo_def entries_log_def
  countConfigChange_def

lemma newRaft_fresh:
  "newRaft (exConfig cid cq mb) (Some exDB) s lim = Some (exFresh cid cq mb s lim)"
  by (simp add: newRaft_def exConfig_def exDB_def exFresh_def Validate_def IsEmptyState_def
        emptyState_def eval_defs word_less_nat_alt)

lemma ticks_Suc_end: "ticks (Suc n) r = ticks n r \<bind> tick"
proof (induction n arbitrary: r)
  case 0
  show ?case by (cases "tick r") simp_all
next
  case (Suc n)
  show ?case
  proof (cases "tick r")
    case None
    then show ?thesis by simp
  next
    case (Some r1)
    then have "ticks (Suc (Suc n)) r = ticks (Suc n) r1" by simp
    also have "\<dots> = ticks n r1 \<bind> tick" by (rule Suc.IH)
    also have "\<dots> = ticks (Suc n) r \<bind> tick" using Some by simp
    finally show ?thesis .
  qed
qed

lemma tick_idle:
  assumes "state r = follower" and "map_of (remotes r) (nodeID r) \<noteq> None"
    and "unat (electionTick r) + 1 < unat (randomizedElectionTimeout r)"
  shows "tick r = Some (r\<lparr>tickCount := tickCount r + 1, electionTick := electionTick r + 1\<rparr>)"
proof -
  have "unat (electionTick r) + unat (1::u64) < 2 ^ LENGTH(64)"
    using assms(3) unsigned_less[of "randomizedElectionTimeout r", where 'a = nat] by simp
  then have "unat (electionTick r + 1) = unat (electionTick r) + 1"
    by (simp add: unat_add_lem[THEN iffD1])
  then have "\<not> randomizedElectionTimeout r \<le> electionTick r + 1"
    using assms(3) by (simp add: word_le_nat_alt)
  then show ?thesis
    using assms(1,2)
    by (simp add: tick.simps nonLeaderTick.simps Let_def isObserver_def selfRemoved_def
          timeForElection_def)
qed

lemma ticks_idle:
  assumes "state r = follower" and "map_of (remotes r) (nodeID r) \<noteq> None"
    and "unat (electionTick r) + n < unat (randomizedElectionTimeout r)"
  shows "ticks n r = Some (r\<lparr>tickCount := tickCount r + of_nat n,
                           electionTick := electionTick r + of_nat n\<rparr>)"
  using assms
proof (induction n arbitrary: r)
  case 0
  then show ?case by simp
next
  case (Suc n)
  let ?r1 = "r\<lparr>tickCount := tickCount r + 1, electionTick := electionTick r + 1\<rparr>"
  have t: "tick r = Some ?r1"
    using Suc.prems by (intro tick_idle) simp_all
  have "unat (electionTick r) + unat (1::u64) < 2 ^ LENGTH(64)"
    using Suc.prems(3) unsigned_less[of "randomizedElectionTimeout r", where 'a = nat] by simp
  then have u: "unat (electionTick r + 1) = unat (electionTick r) + 1"
    by (simp add: unat_add_lem[THEN iffD1])
  have "ticks n ?r1 = Some (?r1\<lparr>tickCount := tickCount ?r1 + of_nat n,
                                electionTick := electionTick ?r1 + of_nat n\<rparr>)"
    using Suc.prems u by (intro Suc.IH) simp_all
  then show ?case by (simp add: t add.assoc)
qed

lemma tick_elect:
  assumes "e + 1 = 10 + shd s mod 10"
  shows "\<exists>r'. tick ((exFresh cid cq mb s lim)\<lparr>tickCount := c, electionTick := e\<rparr>) = Some r'
           \<and> state r' = leader \<and> term r' = 1 \<and> vote r' = 1 \<and> leaderID r' = 1
           \<and> ents (log r') = [\<lparr>eType = ApplicationEntry, eTerm = 1, eIndex = 1, eCmd = []\<rparr>]
           \<and> committed (log r') = 1 \<and> msgs r' = []"
  using assms
  by (simp add: exFresh_def eval_defs countPendingFrom.simps word_le_nat_alt word_less_nat_alt)

text \<open>C6 as stated fails twice. When the election timeout of \<open>exNode\<close> runs out, the tick
  raises the term from 2 to 3 and the vote recorded after it is the node's own, not none. And a
  single-node follower at the largest term that campaigns ends at term 0.\<close>

theorem step_term_and_vote_counterexample:
  "term (exNode\<lparr>electionTick := 14\<rparr>) = 2
   \<and> map_option term (tick (exNode\<lparr>electionTick := 14\<rparr>)) = Some 3
   \<and> map_option vote (tick (exNode\<lparr>electionTick := 14\<rparr>)) = Some 1
   \<and> term exMaxTerm = 18446744073709551615
   \<and> map_option term (Handle exMaxTerm exElection) = Some 0"
  by (simp add: exMaxTerm_def exSingle_def exNode_def exLog_def exElection_def eval_defs
        countPendingFrom.simps entrySize_def)

text \<open>\<open>exNode\<close> receives a vote request of node 3 for term 3 that carries the leader-transfer
  hint: the term goes from 2 to 3 and the vote recorded is that for the sender. A tick that does
  not time out leaves term and vote alone.\<close>

theorem step_term_and_vote_witness:
  "term exNode = 2
   \<and> map_option term (Handle exNode ((exVote 3)\<lparr>mHint := 3\<rparr>)) = Some 3
   \<and> map_option vote (Handle exNode ((exVote 3)\<lparr>mHint := 3\<rparr>)) = Some 3
   \<and> map_option nodeID (Handle exNode ((exVote 3)\<lparr>mHint := 3\<rparr>)) = Some 1
   \<and> map_option term (tick exNode) = Some 2
   \<and> map_option vote (tick exNode) = Some 0"
proof -
  have h: "\<exists>r'. Handle exNode ((exVote 3)\<lparr>mHint := 3\<rparr>) = Some r' \<and> term r' = 3
             \<and> vote r' = 3"
    by (simp add: exVote_def exNode_def exLog_def eval_defs dropRequestVoteFromHighTermNode_def
          isLeaderMessage_def handleNodeRequestVote_eq upToDate_def)
  have t: "\<exists>r'. tick exNode = Some r' \<and> term r' = 2 \<and> vote r' = 0"
    by (simp add: exNode_def exLog_def eval_defs)
  from h t step_term_and_vote [of exNode "(exVote 3)\<lparr>mHint := 3\<rparr>"]
  show ?thesis
    by (auto simp: exNode_def exVote_def emptyMessage_def)
qed

subsection \<open>The single-node leader\<close>

text \<open>
  C9, as amended. \<^verbatim>\<open>newRaft\<close> with node id 1, election RTT 10, heartbeat RTT 1 and the one
  voter 1 draws one value \<open>v\<close> from the random source and sets the randomized election timeout
  to \<open>10 + v mod 10\<close>. After fewer than \<open>10 + v mod 10\<close> ticks the node is still a follower at
  term 0 with an empty log. After exactly \<open>10 + v mod 10\<close> ticks it is the leader at term 1, has
  voted for itself, and its log is the one no-op Application entry at index 1 and term 1,
  committed; no message has been sent. Ten ticks suffice exactly when \<open>v mod 10 = 0\<close>.
\<close>

theorem fresh_single_node_becomes_leader:
  "newRaft (exConfig cid cq mb) (Some exDB) s lim = Some (exFresh cid cq mb s lim)
   \<and> (\<forall>n < 10 + unat (shd s mod 10).
         \<exists>rn. ticks n (exFresh cid cq mb s lim) = Some rn \<and> state rn = follower \<and> term rn = 0
              \<and> ents (log rn) = [])
   \<and> (\<exists>r'. ticks (10 + unat (shd s mod 10)) (exFresh cid cq mb s lim) = Some r'
          \<and> state r' = leader \<and> term r' = 1 \<and> vote r' = 1 \<and> leaderID r' = 1
          \<and> ents (log r') = [\<lparr>eType = ApplicationEntry, eTerm = 1, eIndex = 1, eCmd = []\<rparr>]
          \<and> committed (log r') = 1 \<and> msgs r' = [])"
proof -
  let ?x = "shd s mod 10"
  let ?r0 = "exFresh cid cq mb s lim"
  have k: "unat ?x < 10" by (simp add: unat_mod)
  then have "unat (10::u64) + unat ?x < 2 ^ LENGTH(64)" by simp
  then have u: "unat (10 + ?x) = 10 + unat ?x"
    by (simp add: unat_add_lem[THEN iffD1])
  have idle: "ticks n ?r0 = Some (?r0\<lparr>tickCount := of_nat n, electionTick := of_nat n\<rparr>)"
    if "n < 10 + unat ?x" for n
  proof -
    have "ticks n ?r0 = Some (?r0\<lparr>tickCount := tickCount ?r0 + of_nat n,
                                   electionTick := electionTick ?r0 + of_nat n\<rparr>)"
      using that u by (intro ticks_idle) (simp_all add: exFresh_def)
    then show ?thesis by (simp add: exFresh_def)
  qed
  have a: "\<exists>rn. ticks n ?r0 = Some rn \<and> state rn = follower \<and> term rn = 0 \<and> ents (log rn) = []"
    if "n < 10 + unat ?x" for n
    using idle[OF that] by (simp add: exFresh_def newEntryLog_def)
  have e: "(of_nat (9 + unat ?x) :: u64) + 1 = 10 + ?x"
    by simp
  have "ticks (10 + unat ?x) ?r0 = ticks (9 + unat ?x) ?r0 \<bind> tick"
    using ticks_Suc_end[of "9 + unat ?x" ?r0] by simp
  also have "\<dots> = tick (?r0\<lparr>tickCount := of_nat (9 + unat ?x),
                              electionTick := of_nat (9 + unat ?x)\<rparr>)"
    using idle[of "9 + unat ?x"] by simp
  finally have b: "ticks (10 + unat ?x) ?r0 =
      tick (?r0\<lparr>tickCount := of_nat (9 + unat ?x), electionTick := of_nat (9 + unat ?x)\<rparr>)" .
  show ?thesis
    unfolding b using newRaft_fresh a tick_elect[OF e] by blast
qed

text \<open>With the random value 0 the timeout is 10: a follower after 9 ticks, the leader after
  10.\<close>

theorem fresh_single_node_becomes_leader_witness:
  "newRaft (exConfig 7 False 1024) (Some exDB) (sconst 0) 1024
     = Some (exFresh 7 False 1024 (sconst 0) 1024)
   \<and> map_option state (ticks 10 (exFresh 7 False 1024 (sconst 0) 1024)) = Some leader
   \<and> map_option term (ticks 10 (exFresh 7 False 1024 (sconst 0) 1024)) = Some 1
   \<and> map_option (\<lambda>r. ents (log r)) (ticks 10 (exFresh 7 False 1024 (sconst 0) 1024))
       = Some [\<lparr>eType = ApplicationEntry, eTerm = 1, eIndex = 1, eCmd = []\<rparr>]
   \<and> map_option (\<lambda>r. committed (log r)) (ticks 10 (exFresh 7 False 1024 (sconst 0) 1024)) = Some 1
   \<and> map_option state (ticks 9 (exFresh 7 False 1024 (sconst 0) 1024)) = Some follower"
proof -
  from fresh_single_node_becomes_leader [of 7 False 1024 "sconst 0" 1024]
  have n: "newRaft (exConfig 7 False 1024) (Some exDB) (sconst 0) 1024
             = Some (exFresh 7 False 1024 (sconst 0) 1024)"
    and b: "\<forall>n<10. \<exists>rn. ticks n (exFresh 7 False 1024 (sconst 0) 1024) = Some rn
               \<and> state rn = follower \<and> term rn = 0 \<and> ents (log rn) = []"
    and l: "\<exists>r'. ticks 10 (exFresh 7 False 1024 (sconst 0) 1024) = Some r'
          \<and> state r' = leader \<and> term r' = 1 \<and> vote r' = 1 \<and> leaderID r' = 1
          \<and> ents (log r') = [\<lparr>eType = ApplicationEntry, eTerm = 1, eIndex = 1, eCmd = []\<rparr>]
          \<and> committed (log r') = 1 \<and> msgs r' = []"
    by simp_all
  from b have "\<exists>rn. ticks 9 (exFresh 7 False 1024 (sconst 0) 1024) = Some rn
               \<and> state rn = follower \<and> term rn = 0 \<and> ents (log rn) = []" by simp
  with n l show ?thesis by auto
qed

text \<open>C9 as stated fails for the random value 1: the timeout is 11, and after 10 ticks the
  node is still a follower at term 0 with an empty log.\<close>

theorem ten_ticks_no_election_counterexample:
  "newRaft (exConfig 7 False 1024) (Some exDB) (sconst 1) 1024
     = Some (exFresh 7 False 1024 (sconst 1) 1024)
   \<and> randomizedElectionTimeout (exFresh 7 False 1024 (sconst 1) 1024) = 11
   \<and> map_option state (ticks 10 (exFresh 7 False 1024 (sconst 1) 1024)) = Some follower
   \<and> map_option term (ticks 10 (exFresh 7 False 1024 (sconst 1) 1024)) = Some 0
   \<and> map_option (\<lambda>r. ents (log r)) (ticks 10 (exFresh 7 False 1024 (sconst 1) 1024)) = Some []"
proof -
  have "ticks 10 (exFresh 7 False 1024 (sconst 1) 1024) =
        Some ((exFresh 7 False 1024 (sconst 1) 1024)\<lparr>
               tickCount := tickCount (exFresh 7 False 1024 (sconst 1) 1024) + of_nat 10,
               electionTick := electionTick (exFresh 7 False 1024 (sconst 1) 1024) + of_nat 10\<rparr>)"
    by (rule ticks_idle) (simp_all add: exFresh_def)
  then show ?thesis
    using newRaft_fresh[of 7 False 1024 "sconst 1" 1024]
    by (simp add: exFresh_def newEntryLog_def)
qed

end
